(* ===== verification/Prelude.thy ===== *)
theory Prelude
  imports Main "HOL-Library.List_Lexorder" "HOL-Library.Char_ord"
begin

text \<open>
  Shared vocabulary of the model of \<^verbatim>\<open>src/app.js\<close>: the few JavaScript built-ins the
  program relies on, written as executable HOL functions, and the lemmas about them
  that the component theories use.
  \<^item> \<open>first_index\<close> is the first-match search behind \<^verbatim>\<open>document.querySelector\<close>;
  \<^item> \<open>js_nth\<close> is array indexing with \<^verbatim>\<open>undefined\<close> out of range;
  \<^item> \<open>nat_str\<close>/\<open>int_str\<close> render numbers as \<^verbatim>\<open>String(n)\<close> does for integers,
    and \<open>parse_int\<close> is \<^verbatim>\<open>parseInt(s)\<close> in base 10, with the round trip between them;
  \<^item> \<open>keep_last\<close> is the \<^verbatim>\<open>splice\<close> that trims the view history.
  Strings are \<open>char list\<close>; JavaScript's \<open><\<close> on strings compares code units
  lexicographically, which for the ASCII keys the program tests is the order of
  \<^verbatim>\<open>HOL-Library.List_Lexorder\<close> over \<^verbatim>\<open>HOL-Library.Char_ord\<close>.
\<close>

named_theorems js_simps \<open>evaluation rules of the JavaScript helpers\<close>

section \<open>First match in document order\<close>

primrec first_index :: "('a \<Rightarrow> bool) \<Rightarrow> 'a list \<Rightarrow> nat option" where
  "first_index P [] = None"
| "first_index P (x # xs) =
     (if P x then Some 0 else map_option Suc (first_index P xs))"

section \<open>Array indexing\<close>

definition js_nth :: "'a list \<Rightarrow> int \<Rightarrow> 'a option" where
  "js_nth xs i = (if 0 \<le> i \<and> i < int (length xs) then Some (xs ! nat i) else None)"

definition js_string_of :: "string option \<Rightarrow> string" where
  \<comment> \<open>template-literal rendering of a value that may be \<^verbatim>\<open>undefined\<close>\<close>
  "js_string_of v = (case v of Some s \<Rightarrow> s | None \<Rightarrow> ''undefined'')"

section \<open>Numbers and strings\<close>

definition digit_char :: "nat \<Rightarrow> char" where
  "digit_char d = char_of (48 + d)"

fun nat_str :: "nat \<Rightarrow> string" where
  "nat_str n = (if n < 10 then [digit_char n] else nat_str (n div 10) @ [digit_char (n mod 10)])"

declare nat_str.simps [simp del]

definition int_str :: "int \<Rightarrow> string" where
  "int_str i = (if i < 0 then CHR ''-'' # nat_str (nat (- i)) else nat_str (nat i))"

definition is_digit :: "char \<Rightarrow> bool" where
  "is_digit c \<longleftrightarrow> CHR ''0'' \<le> c \<and> c \<le> CHR ''9''"

definition is_js_space :: "char \<Rightarrow> bool" where
  \<comment> \<open>the ASCII part of the white space that \<^verbatim>\<open>parseInt\<close> skips\<close>
  "is_js_space c \<longleftrightarrow> c \<in> {CHR '' '', CHR 0x09, CHR 0x0A, CHR 0x0B, CHR 0x0C, CHR 0x0D}"

primrec digits_val :: "nat \<Rightarrow> string \<Rightarrow> nat" where
  "digits_val acc [] = acc"
| "digits_val acc (c # cs) = digits_val (10 * acc + (of_char c - 48)) cs"

definition parse_int :: "string \<Rightarrow> int option" where
  "parse_int s =
     (let t = dropWhile is_js_space s;
          (neg, u) = (case t of
                        [] \<Rightarrow> (False, [])
                      | c # r \<Rightarrow> if c = CHR ''-'' then (True, r)
                                 else if c = CHR ''+'' then (False, r) else (False, t));
          ds = takeWhile is_digit u
      in if ds = [] then None
         else Some ((if neg then -1 else 1) * int (digits_val 0 ds)))"

section \<open>Keeping the tail of a list\<close>

definition keep_last :: "nat \<Rightarrow> 'a list \<Rightarrow> 'a list" where
  "keep_last n xs = (if length xs > n then drop (length xs - n) xs else xs)"

section \<open>Lemmas\<close>

subsection \<open>\<open>first_index\<close>\<close>

lemma first_index_SomeD:
  "first_index P xs = Some i \<Longrightarrow> i < length xs \<and> P (xs ! i) \<and> (\<forall>j<i. \<not> P (xs ! j))"
proof (induction xs arbitrary: i)
  case Nil
  then show ?case by simp
next
  case (Cons x xs)
  then show ?case
    by (auto split: if_splits simp: nth_Cons' less_Suc_eq_0_disj)
qed

lemma first_index_None_iff [js_simps]: "first_index P xs = None \<longleftrightarrow> (\<forall>x\<in>set xs. \<not> P x)"
  by (induction xs) auto

lemma first_index_Some_iff:
  "first_index P xs = Some i \<longleftrightarrow> i < length xs \<and> P (xs ! i) \<and> (\<forall>j<i. \<not> P (xs ! j))"
proof
  assume "first_index P xs = Some i"
  then show "i < length xs \<and> P (xs ! i) \<and> (\<forall>j<i. \<not> P (xs ! j))"
    by (rule first_index_SomeD)
next
  assume "i < length xs \<and> P (xs ! i) \<and> (\<forall>j<i. \<not> P (xs ! j))"
  then show "first_index P xs = Some i"
  proof (induction xs arbitrary: i)
    case Nil
    then show ?case by simp
  next
    case (Cons x xs)
    show ?case
    proof (cases i)
      case 0
      with Cons.prems show ?thesis by simp
    next
      case (Suc k)
      with Cons.prems have "\<not> P x" by auto
      moreover from Suc Cons.prems have "first_index P xs = Some k"
        by (intro Cons.IH) auto
      ultimately show ?thesis using Suc by simp
    qed
  qed
qed

text \<open>The search only looks at what the predicate looks at.\<close>

lemma first_index_cong:
  "map f xs = map f ys \<Longrightarrow> (\<And>x. P x = Q (f x)) \<Longrightarrow> (\<And>y. R y = Q (f y)) \<Longrightarrow>
   first_index P xs = first_index R ys"
proof (induction xs arbitrary: ys)
  case Nil
  then show ?case by simp
next
  case (Cons x xs)
  then show ?case by (cases ys) auto
qed

subsection \<open>Decimal rendering and \<open>parseInt\<close>\<close>

text \<open>Evaluating the rendering of a concrete number.\<close>

lemmas str_eval = int_str_def nat_str.simps digit_char_def char_of_eq_iff

lemma digit_char_digit: "d < 10 \<Longrightarrow> is_digit (digit_char d)"
  by (simp add: is_digit_def digit_char_def less_eq_char_def)

lemma digit_char_val: "d < 10 \<Longrightarrow> of_char (digit_char d) - 48 = d"
  by (simp add: digit_char_def)

lemma nat_str_digits: "\<forall>c\<in>set (nat_str n). is_digit c"
  by (induction n rule: nat_str.induct) (subst nat_str.simps, auto simp: digit_char_digit)

lemma nat_str_nonempty [simp]: "nat_str n \<noteq> []"
  by (subst nat_str.simps) simp

lemma takeWhile_digit_nat_str [simp]: "takeWhile is_digit (nat_str n) = nat_str n"
  using nat_str_digits by (simp add: takeWhile_eq_all_conv)

lemma digits_val_snoc: "digits_val acc (xs @ [c]) = 10 * digits_val acc xs + (of_char c - 48)"
  by (induction xs arbitrary: acc) auto

lemma digits_val_nat_str [simp]: "digits_val 0 (nat_str n) = n"
proof (induction n rule: nat_str.induct)
  case (1 n)
  show ?case
  proof (cases "n < 10")
    case True
    then show ?thesis by (subst nat_str.simps) (simp add: digit_char_val)
  next
    case False
    with "1.IH" have "digits_val 0 (nat_str (n div 10)) = n div 10" by simp
    with False show ?thesis by (subst nat_str.simps) (simp add: digits_val_snoc digit_char_val)
  qed
qed

lemma nat_str_hd:
  "\<not> is_js_space (hd (nat_str n)) \<and> hd (nat_str n) \<noteq> CHR ''-'' \<and> hd (nat_str n) \<noteq> CHR ''+''"
proof -
  have "is_digit (hd (nat_str n))"
    using nat_str_digits nat_str_nonempty by (metis list.set_sel(1))
  then show ?thesis by (auto simp: is_digit_def is_js_space_def less_eq_char_def)
qed

text \<open>Round trip: \<^verbatim>\<open>parseInt(String(n)) === n\<close> for every integer.\<close>

lemma parse_int_nat_str [simp]: "parse_int (nat_str n) = Some (int n)"
proof -
  obtain c cs where cs: "nat_str n = c # cs"
    using nat_str_nonempty by (cases "nat_str n") auto
  have hd: "\<not> is_js_space c" "c \<noteq> CHR ''-''" "c \<noteq> CHR ''+''"
    using nat_str_hd [of n] cs by auto
  have d: "dropWhile is_js_space (nat_str n) = nat_str n"
    using cs hd by simp
  have sgn: "(case nat_str n of [] \<Rightarrow> (False, [])
              | c # r \<Rightarrow> if c = CHR ''-'' then (True, r)
                         else if c = CHR ''+'' then (False, r) else (False, nat_str n))
           = (False, nat_str n)"
    using cs hd by simp
  show ?thesis by (simp add: parse_int_def d sgn)
qed

lemma parse_int_int_str [simp]: "parse_int (int_str i) = Some i"
proof (cases "i < 0")
  case True
  then show ?thesis by (simp add: parse_int_def int_str_def is_js_space_def)
next
  case False
  then show ?thesis using parse_int_nat_str [of "nat i"] by (simp add: int_str_def)
qed

lemma int_str_inj [simp]: "int_str i = int_str j \<longleftrightarrow> i = j"
  by (metis parse_int_int_str option.inject)

lemma nat_str_inj [simp]: "nat_str m = nat_str n \<longleftrightarrow> m = n"
  by (metis parse_int_nat_str option.inject of_nat_eq_iff)

subsection \<open>\<open>keep_last\<close>\<close>

lemma keep_last_length [simp]: "length (keep_last n xs) = min n (length xs)"
  by (simp add: keep_last_def)

lemma keep_last_suffix: "\<exists>ys. xs = ys @ keep_last n xs"
  by (metis append_take_drop_id keep_last_def self_append_conv2)

lemma keep_last_id [simp]: "length xs \<le> n \<Longrightarrow> keep_last n xs = xs"
  by (simp add: keep_last_def)

lemma keep_last_snoc_last:
  "0 < n \<Longrightarrow> keep_last n (xs @ [x]) = keep_last (n - 1) xs @ [x]"
  by (auto simp: keep_last_def Suc_diff_le)

lemma map_keep_last: "map f (keep_last n xs) = keep_last n (map f xs)"
  by (simp add: keep_last_def drop_map)

lemma keep_last_snoc2: "1 < n \<Longrightarrow> keep_last n (xs @ [a, b]) = keep_last (n - 2) xs @ [a, b]"
  by (auto simp: keep_last_def)

subsection \<open>Array indexing\<close>

lemma js_nth_in_range [js_simps]:
  "0 \<le> i \<Longrightarrow> i < int (length xs) \<Longrightarrow> js_nth xs i = Some (xs ! nat i)"
  by (simp add: js_nth_def)

lemma js_nth_out_of_range [js_simps]:
  "i < 0 \<or> int (length xs) \<le> i \<Longrightarrow> js_nth xs i = None"
  by (auto simp add: js_nth_def)

end
