(* ===== verification/Dom.thy ===== *)
theory Dom
  imports Prelude
begin

text \<open>
  The Display Synchronizer of \<^verbatim>\<open>src/app.js\<close>: the part of the page the controller
  writes, and the methods \<^verbatim>\<open>updateDisplay\<close>, \<^verbatim>\<open>updateButtonStates\<close>,
  \<^verbatim>\<open>updatePageTitle\<close>, \<^verbatim>\<open>getCurrentSlideTitle\<close> and the style writes of
  \<^verbatim>\<open>animateSlideTransition\<close>, as functions of the current slide number and the page.
  The page is a list of elements in document order; an element carries the classes the
  code tests (\<^verbatim>\<open>slide\<close>, \<^verbatim>\<open>indicator\<close>, \<^verbatim>\<open>active\<close>), its \<^verbatim>\<open>data-slide\<close>
  attribute, the text of its first \<^verbatim>\<open>.slide-title\<close>/\<^verbatim>\<open>.main-title\<close> descendant and
  the two style properties the animation writes. The lemmas characterise the result
  of \<^verbatim>\<open>updateDisplay\<close> element by element, and derive from it that it is
  idempotent and that it marks exactly one slide and exactly one indicator active.
\<close>

record elem =
  is_slide :: bool
  is_indicator :: bool
  data_slide :: "string option"
  is_active :: bool
  heading :: "string option"
  opacity :: string
  transform :: string

record button =
  disabled :: bool
  label :: string

record page =
  elems :: "elem list"
  prev_btn :: "button option"
  next_btn :: "button option"
  counter_text :: "string option"
  total_text :: "string option"
  doc_title :: string

datatype dir = Next | Prev

text \<open>An \<^verbatim>\<open>.action-checkbox\<close> element of the deck: its text (a box or a check
  mark), its colour, its \<^verbatim>\<open>data-completed\<close> attribute, whether it lies inside an
  \<^verbatim>\<open>.action-item\<close>, and whether \<^verbatim>\<open>enableActionItems\<close> registered its click
  listener.\<close>

record abox =
  box_text :: string
  box_color :: string
  box_completed :: bool
  box_in_item :: bool
  box_listening :: bool

section \<open>Constants of the deck\<close>

definition slide_titles :: "string list" where
  "slide_titles =
     [''Company Title & Overview'', ''Executive Summary'', ''2025 Performance Overview'',
      ''Monthly Revenue Trends'', ''Top Service Categories'', ''Major Contract Analysis'',
      ''Seasonal Business Patterns'', ''MailChimp Integration Strategy'',
      ''Automated Email Campaigns'', ''Implementation Roadmap'', ''Expected ROI and Benefits'',
      ''Next Steps & Action Items'']"

definition base_title :: string where
  "base_title = ''Clancy Brothers Pest Control - 2025 Performance & MailChimp Strategy''"

definition prev_label :: string where
  \<comment> \<open>\<^verbatim>\<open>'\<leftarrow> Previous'\<close>, the arrow in UTF-8\<close>
  "prev_label = [CHR 0xE2, CHR 0x86, CHR 0x90] @ '' Previous''"

definition next_label :: string where
  \<comment> \<open>\<^verbatim>\<open>'Next \<rightarrow>'\<close>, the arrow in UTF-8\<close>
  "next_label = ''Next '' @ [CHR 0xE2, CHR 0x86, CHR 0x92]"

section \<open>\<^verbatim>\<open>updateDisplay\<close>\<close>

definition hide_slides :: "elem list \<Rightarrow> elem list" where
  \<comment> \<open>\<^verbatim>\<open>this.slides.forEach(slide => slide.classList.remove('active'))\<close>\<close>
  "hide_slides es = map (\<lambda>e. if is_slide e then e\<lparr>is_active := False\<rparr> else e) es"

definition slide_match :: "int \<Rightarrow> elem \<Rightarrow> bool" where
  \<comment> \<open>the selector \<^verbatim>\<open>[data-slide="${this.currentSlide}"]\<close>\<close>
  "slide_match c e \<longleftrightarrow> data_slide e = Some (int_str c)"

definition show_slide :: "int \<Rightarrow> elem list \<Rightarrow> elem list" where
  "show_slide c es =
     (case first_index (slide_match c) es of
        None \<Rightarrow> es
      | Some i \<Rightarrow> es[i := (es ! i)\<lparr>is_active := True\<rparr>])"

fun toggle_indicators :: "int \<Rightarrow> nat \<Rightarrow> elem list \<Rightarrow> elem list" where
  \<comment> \<open>\<^verbatim>\<open>indicator.classList.toggle('active', index + 1 === this.currentSlide)\<close>,
      \<open>k\<close> the index of the next indicator\<close>
  "toggle_indicators c k [] = []"
| "toggle_indicators c k (e # es) =
     (if is_indicator e
      then e\<lparr>is_active := (int k + 1 = c)\<rparr> # toggle_indicators c (Suc k) es
      else e # toggle_indicators c k es)"

definition update_page_title :: "int \<Rightarrow> page \<Rightarrow> page" where
  "update_page_title c p =
     p\<lparr>doc_title := js_string_of (js_nth slide_titles (c - 1)) @ '' | '' @ base_title\<rparr>"

definition update_display :: "int \<Rightarrow> page \<Rightarrow> page" where
  "update_display c p =
     update_page_title c
       (p\<lparr>elems := toggle_indicators c 0 (show_slide c (hide_slides (elems p))),
          counter_text := map_option (\<lambda>_. int_str c) (counter_text p)\<rparr>)"

section \<open>\<^verbatim>\<open>updateButtonStates\<close>\<close>

definition update_button_states :: "int \<Rightarrow> int \<Rightarrow> page \<Rightarrow> page" where
  "update_button_states c t p =
     p\<lparr>prev_btn := map_option (\<lambda>b. b\<lparr>disabled := (c = 1),
                                     label := (if c = 1 then ''First Slide'' else prev_label)\<rparr>)
                              (prev_btn p),
       next_btn := map_option (\<lambda>b. b\<lparr>disabled := (c = t),
                                     label := (if c = t then ''Final Slide'' else next_label)\<rparr>)
                              (next_btn p)\<rparr>"

section \<open>\<^verbatim>\<open>getCurrentSlideTitle\<close>\<close>

definition active_slide :: "elem list \<Rightarrow> nat option" where
  \<comment> \<open>\<^verbatim>\<open>document.querySelector('.slide.active')\<close>\<close>
  "active_slide es = first_index (\<lambda>e. is_slide e \<and> is_active e) es"

definition get_current_slide_title :: "int \<Rightarrow> page \<Rightarrow> string" where
  "get_current_slide_title c p =
     (case active_slide (elems p) of
        Some i \<Rightarrow> (case heading (elems p ! i) of
                     Some t \<Rightarrow> t
                   | None \<Rightarrow> ''Slide '' @ int_str c)
      | None \<Rightarrow> ''Slide '' @ int_str c)"

section \<open>Style writes of \<^verbatim>\<open>animateSlideTransition\<close>\<close>

definition animate_start :: "dir \<Rightarrow> page \<Rightarrow> page \<times> nat option" where
  \<comment> \<open>hides the active slide and returns it, for the timer that shows it again\<close>
  "animate_start d p =
     (case active_slide (elems p) of
        None \<Rightarrow> (p, None)
      | Some i \<Rightarrow>
          (p\<lparr>elems := (elems p)[i := (elems p ! i)\<lparr>opacity := ''0'',
               transform := (if d = Next then ''translateX(-15px)'' else ''translateX(15px)'')\<rparr>]\<rparr>,
           Some i))"

definition animate_end :: "nat \<Rightarrow> page \<Rightarrow> page" where
  \<comment> \<open>the callback of \<^verbatim>\<open>setTimeout(..., 50)\<close>\<close>
  "animate_end i p =
     p\<lparr>elems := (elems p)[i := (elems p ! i)\<lparr>opacity := ''1'', transform := ''translateX(0)''\<rparr>]\<rparr>"

section \<open>Specification of the synchronised display\<close>

text \<open>
  \<open>strip\<close> forgets the \<^verbatim>\<open>active\<close> class: the rest of an element is never written
  by \<^verbatim>\<open>updateDisplay\<close>. \<open>ind_pos\<close> is the index an element would have in
  \<^verbatim>\<open>querySelectorAll('.indicator')\<close>, and \<open>displayed_active\<close> says, element by
  element, whether it carries \<^verbatim>\<open>active\<close> after \<^verbatim>\<open>updateDisplay\<close>.
\<close>

definition strip :: "elem \<Rightarrow> elem" where
  "strip e = e\<lparr>is_active := False\<rparr>"

definition ind_pos :: "elem list \<Rightarrow> nat \<Rightarrow> nat" where
  "ind_pos es j = length (filter is_indicator (take j es))"

definition displayed_active :: "int \<Rightarrow> elem list \<Rightarrow> nat \<Rightarrow> bool" where
  "displayed_active c es j =
     (if is_indicator (es ! j) then int (ind_pos es j) + 1 = c
      else if first_index (slide_match c) es = Some j then True
      else if is_slide (es ! j) then False
      else is_active (es ! j))"

text \<open>
  \<open>marks\<close> is what the display properties look at: classes, \<^verbatim>\<open>data-slide\<close>
  and heading, but not the style the animation writes.
\<close>

definition marks :: "elem list \<Rightarrow> (bool \<times> bool \<times> string option \<times> bool \<times> string option) list" where
  "marks es = map (\<lambda>e. (is_slide e, is_indicator e, data_slide e, is_active e, heading e)) es"

text \<open>A page is \<open>synced\<close> with slide \<open>c\<close> when \<^verbatim>\<open>updateDisplay\<close> would not
  change it, and its buttons are synced when \<^verbatim>\<open>updateButtonStates\<close> would not.\<close>

definition synced :: "int \<Rightarrow> page \<Rightarrow> bool" where
  "synced c p \<longleftrightarrow> update_display c p = p"

definition buttons_synced :: "int \<Rightarrow> int \<Rightarrow> page \<Rightarrow> bool" where
  "buttons_synced c t p \<longleftrightarrow> update_button_states c t p = p"

text \<open>The deck the program is written for: no element is both a slide and an
  indicator, each slide number \<open>1..12\<close> is first carried by a slide, and there are
  12 indicators. \<open>skel\<close> is the part of an element this depends on, which no
  operation writes.\<close>

definition skel :: "elem \<Rightarrow> bool \<times> bool \<times> string option" where
  "skel = (\<lambda>e. (is_slide e, is_indicator e, data_slide e))"

definition deck_ok :: "elem list \<Rightarrow> bool" where
  "deck_ok es \<longleftrightarrow>
     (\<forall>e\<in>set es. \<not> (is_slide e \<and> is_indicator e)) \<and>
     (\<forall>c\<in>{1..12}. case first_index (slide_match c) es of Some i \<Rightarrow> is_slide (es ! i) | None \<Rightarrow> False) \<and>
     length (filter is_indicator es) = 12"

section \<open>Lemmas\<close>

lemma strip_sel [simp]:
  "is_slide (strip e) = is_slide e" "is_indicator (strip e) = is_indicator e"
  "data_slide (strip e) = data_slide e"
  "strip (e\<lparr>is_active := b\<rparr>) = strip e"
  by (simp_all add: strip_def)

lemma length_filter_map: "length (filter P xs) = length (filter id (map P xs))"
  by (induction xs) auto

lemma strip_ind_pos: "map strip xs = map strip ys \<Longrightarrow> ind_pos xs j = ind_pos ys j"
proof -
  assume h: "map strip xs = map strip ys"
  have "map is_indicator xs = map is_indicator ys"
    using arg_cong [OF h, of "map is_indicator"] by (simp add: comp_def)
  then show ?thesis
    by (simp only: ind_pos_def length_filter_map [of is_indicator] take_map [symmetric])
qed

lemma strip_first_match:
  "map strip xs = map strip ys \<Longrightarrow> first_index (slide_match c) xs = first_index (slide_match c) ys"
  by (rule first_index_cong [where f = strip and Q = "slide_match c"]) (simp_all add: slide_match_def)

lemma hide_slides_length [simp]: "length (hide_slides es) = length es"
  by (simp add: hide_slides_def)

lemma hide_slides_strip [simp]: "map strip (hide_slides es) = map strip es"
  by (simp add: hide_slides_def)

lemma hide_slides_nth:
  "j < length es \<Longrightarrow> hide_slides es ! j = (if is_slide (es ! j) then (es ! j)\<lparr>is_active := False\<rparr> else es ! j)"
  by (simp add: hide_slides_def)

lemma show_slide_length [simp]: "length (show_slide c es) = length es"
  by (simp add: show_slide_def split: option.split)

lemma map_update_same: "i < length xs \<Longrightarrow> (map f xs)[i := f (xs ! i)] = map f xs"
  by (simp add: list_eq_iff_nth_eq nth_list_update)

lemma show_slide_strip [simp]: "map strip (show_slide c es) = map strip es"
  by (auto simp add: show_slide_def map_update map_update_same split: option.split
           dest!: first_index_SomeD)

lemma show_slide_nth:
  "j < length es \<Longrightarrow> show_slide c es ! j =
     (if first_index (slide_match c) es = Some j then (es ! j)\<lparr>is_active := True\<rparr> else es ! j)"
  by (auto simp add: show_slide_def nth_list_update split: option.split)

lemma toggle_indicators_length [simp]: "length (toggle_indicators c k es) = length es"
  by (induction c k es rule: toggle_indicators.induct) auto

lemma toggle_indicators_strip [simp]: "map strip (toggle_indicators c k es) = map strip es"
  by (induction c k es rule: toggle_indicators.induct) auto

lemma toggle_indicators_nth:
  "j < length es \<Longrightarrow> toggle_indicators c k es ! j =
     (if is_indicator (es ! j) then (es ! j)\<lparr>is_active := (int (k + ind_pos es j) + 1 = c)\<rparr> else es ! j)"
proof (induction c k es arbitrary: j rule: toggle_indicators.induct)
  case (1 c k)
  then show ?case by simp
next
  case (2 c k e es)
  show ?case
  proof (cases j)
    case 0
    then show ?thesis by (simp add: ind_pos_def)
  next
    case (Suc i)
    with "2.prems" have "i < length es" by simp
    with Suc "2.IH" show ?thesis by (simp add: ind_pos_def)
  qed
qed

lemma toggle_indicators_filter:
  "map is_active (filter is_indicator (toggle_indicators c k es)) =
   map (\<lambda>i. int i + 1 = c) [k..<k + length (filter is_indicator es)]"
proof (induction c k es rule: toggle_indicators.induct)
  case (1 c k)
  then show ?case by simp
next
  case (2 c k e es)
  show ?case
  proof (cases "is_indicator e")
    case True
    have "[k..<k + length (filter is_indicator (e # es))] = k # [Suc k..<Suc k + length (filter is_indicator es)]"
      using True by (simp add: upt_conv_Cons del: upt_Suc)
    with True "2.IH"(1) show ?thesis by simp
  next
    case False
    with "2.IH"(2) show ?thesis by simp
  qed
qed

lemma update_display_elems_length [simp]: "length (elems (update_display c p)) = length (elems p)"
  by (simp add: update_display_def update_page_title_def)

lemma update_display_strip [simp]: "map strip (elems (update_display c p)) = map strip (elems p)"
  by (simp add: update_display_def update_page_title_def)

lemma update_display_nth:
  "j < length (elems p) \<Longrightarrow>
   elems (update_display c p) ! j = (elems p ! j)\<lparr>is_active := displayed_active c (elems p) j\<rparr>"
proof -
  assume j: "j < length (elems p)"
  let ?es = "elems p"
  let ?s = "show_slide c (hide_slides ?es)"
  have m1: "first_index (slide_match c) (hide_slides ?es) = first_index (slide_match c) ?es"
    by (rule strip_first_match) simp
  have m2: "ind_pos ?s j = ind_pos ?es j"
    by (rule strip_ind_pos) simp
  have "elems (update_display c p) ! j = toggle_indicators c 0 ?s ! j"
    by (simp add: update_display_def update_page_title_def)
  also have "\<dots> = (elems p ! j)\<lparr>is_active := displayed_active c (elems p) j\<rparr>"
    using j m1 m2
    by (simp add: toggle_indicators_nth show_slide_nth hide_slides_nth displayed_active_def)
  finally show ?thesis .
qed

lemma update_display_fields [simp]:
  "prev_btn (update_display c p) = prev_btn p"
  "next_btn (update_display c p) = next_btn p"
  "total_text (update_display c p) = total_text p"
  "counter_text (update_display c p) = map_option (\<lambda>_. int_str c) (counter_text p)"
  "doc_title (update_display c p) = js_string_of (js_nth slide_titles (c - 1)) @ '' | '' @ base_title"
  "page.more (update_display c p) = page.more p"
  by (simp_all add: update_display_def update_page_title_def)

lemma displayed_active_update_display:
  "j < length (elems p) \<Longrightarrow>
   displayed_active c (elems (update_display c p)) j = displayed_active c (elems p) j"
proof -
  assume j: "j < length (elems p)"
  have f: "first_index (slide_match c) (elems (update_display c p)) = first_index (slide_match c) (elems p)"
    by (rule strip_first_match) simp
  have i: "ind_pos (elems (update_display c p)) j = ind_pos (elems p) j"
    by (rule strip_ind_pos) simp
  show ?thesis using j f i by (simp add: displayed_active_def update_display_nth)
qed

text \<open>C9. The display synchronizer is idempotent: running \<^verbatim>\<open>updateDisplay\<close> twice for the same slide gives the page it gives once.\<close>

theorem update_display_idem: "update_display c (update_display c p) = update_display c p"
proof (rule page.equality)
  show "elems (update_display c (update_display c p)) = elems (update_display c p)"
    by (rule nth_equalityI) (simp_all add: update_display_nth displayed_active_update_display)
qed (simp_all add: option.map_comp comp_def)

theorem update_display_one_slide:
  assumes wf: "\<forall>e\<in>set (elems p). \<not> (is_slide e \<and> is_indicator e)"
    and m: "first_index (slide_match c) (elems p) = Some i" and s: "is_slide (elems p ! i)"
  shows "{j. j < length (elems (update_display c p)) \<and> is_slide (elems (update_display c p) ! j)
             \<and> is_active (elems (update_display c p) ! j)} = {i}"
proof -
  have i: "i < length (elems p)" using m by (auto dest: first_index_SomeD)
  have ni: "\<not> is_indicator (elems p ! i)" using wf s i by (auto dest: nth_mem)
  show ?thesis
  proof (intro set_eqI iffI)
    fix j assume "j \<in> {j. j < length (elems (update_display c p)) \<and> is_slide (elems (update_display c p) ! j)
             \<and> is_active (elems (update_display c p) ! j)}"
    then have j: "j < length (elems p)" and "is_slide (elems (update_display c p) ! j)"
      and "is_active (elems (update_display c p) ! j)" by simp_all
    then have "j < length (elems p)" "is_slide (elems p ! j)" "displayed_active c (elems p) j"
      by (simp_all add: update_display_nth [OF j])
    moreover then have "\<not> is_indicator (elems p ! j)" using wf by (auto dest: nth_mem)
    ultimately show "j \<in> {i}" using m by (simp add: displayed_active_def split: if_splits)
  next
    fix j assume "j \<in> {i}"
    then show "j \<in> {j. j < length (elems (update_display c p)) \<and> is_slide (elems (update_display c p) ! j)
             \<and> is_active (elems (update_display c p) ! j)}"
      using i ni s m by (simp add: update_display_nth displayed_active_def)
  qed
qed

theorem update_display_indicators:
  "map is_active (filter is_indicator (elems (update_display c p))) =
   map (\<lambda>k. int k + 1 = c) [0..<length (filter is_indicator (elems p))]"
proof -
  have "ind_pos (show_slide c (hide_slides (elems p))) (length (elems p)) = ind_pos (elems p) (length (elems p))"
    by (rule strip_ind_pos) simp
  then have "length (filter is_indicator (show_slide c (hide_slides (elems p)))) = length (filter is_indicator (elems p))"
    by (simp add: ind_pos_def)
  then show ?thesis
    using toggle_indicators_filter [of c 0 "show_slide c (hide_slides (elems p))"]
    by (simp add: update_display_def update_page_title_def)
qed

lemma active_slide_less: "active_slide es = Some i \<Longrightarrow> i < length es"
  by (simp add: active_slide_def first_index_Some_iff)

lemma animate_start_marks:
  "marks (elems (fst (animate_start d p))) = marks (elems p)"
proof (cases "active_slide (elems p)")
  case None
  then show ?thesis by (simp add: animate_start_def)
next
  case (Some i)
  then have "i < length (elems p)" by (rule active_slide_less)
  with Some show ?thesis by (simp add: animate_start_def marks_def list_eq_iff_nth_eq nth_list_update)
qed


lemma marks_nth:
  "marks xs = marks ys \<Longrightarrow> j < length xs \<Longrightarrow>
   is_slide (xs ! j) = is_slide (ys ! j) \<and> is_indicator (xs ! j) = is_indicator (ys ! j) \<and>
   data_slide (xs ! j) = data_slide (ys ! j) \<and> is_active (xs ! j) = is_active (ys ! j)"
proof -
  assume m: "marks xs = marks ys" and j: "j < length xs"
  have l: "length xs = length ys" using arg_cong [OF m, of length] by (simp add: marks_def)
  have "marks xs ! j = marks ys ! j" using m by simp
  then show ?thesis using j l by (simp add: marks_def)
qed

lemma marks_displayed_active:
  assumes m: "marks xs = marks ys" and j: "j < length xs"
  shows "displayed_active c xs j = displayed_active c ys j"
proof -
  have "map is_indicator xs = map is_indicator ys" "map data_slide xs = map data_slide ys"
    using arg_cong [OF m, of "map (\<lambda>(a, b, c, d, e). b)"] arg_cong [OF m, of "map (\<lambda>(a, b, c, d, e). c)"]
    by (simp_all add: marks_def comp_def)
  then have "ind_pos xs j = ind_pos ys j"
    by (simp only: ind_pos_def length_filter_map [of is_indicator] take_map [symmetric])
  moreover have "first_index (slide_match c) xs = first_index (slide_match c) ys"
    by (rule first_index_cong [where f = data_slide]) (simp_all add: slide_match_def \<open>map data_slide xs = _\<close>)
  ultimately show ?thesis using marks_nth [OF m j] by (simp add: displayed_active_def)
qed

lemma synced_restyle:
  assumes s: "synced c p" and m: "marks (elems p') = marks (elems p)" and r: "p'\<lparr>elems := elems p\<rparr> = p"
  shows "synced c p'"
proof -
  have l: "length (elems p') = length (elems p)" using arg_cong [OF m, of length] by (simp add: marks_def)
  have e: "elems (update_display c p') = elems p'"
  proof (rule nth_equalityI)
    fix j assume "j < length (elems (update_display c p'))"
    then have j: "j < length (elems p')" by simp
    have "is_active (elems (update_display c p) ! j) = is_active (elems p ! j)"
      using s by (simp add: synced_def)
    then have "is_active (elems p ! j) = displayed_active c (elems p) j"
      using j l by (simp add: update_display_nth)
    then have "is_active (elems p' ! j) = displayed_active c (elems p') j"
      using marks_nth [OF m j] marks_displayed_active [OF m j] by simp
    then show "elems (update_display c p') ! j = elems p' ! j"
      using j by (simp add: update_display_nth)
  qed simp
  have f: "counter_text p' = counter_text p" "doc_title p' = doc_title p"
    using arg_cong [OF r, of counter_text] arg_cong [OF r, of doc_title] by simp_all
  have "counter_text (update_display c p) = counter_text p" "doc_title (update_display c p) = doc_title p"
    using s by (simp_all add: synced_def)
  then show ?thesis using e f
    by (simp add: synced_def page.equality)
qed

lemma update_display_button_states:
  "update_display c (update_button_states c' t p) = update_button_states c' t (update_display c p)"
  by (simp add: update_display_def update_page_title_def update_button_states_def)

lemma synced_update_display: "synced c (update_display c p)"
  by (simp add: synced_def update_display_idem)

lemma buttons_synced_update: "buttons_synced c t (update_button_states c t p)"
  by (simp add: buttons_synced_def update_button_states_def option.map_comp comp_def)

lemma synced_update_button_states: "synced c p \<Longrightarrow> synced c (update_button_states c' t p)"
  by (simp add: synced_def update_display_button_states)

lemma buttons_synced_update_display: "buttons_synced c t p \<Longrightarrow> buttons_synced c t (update_display c' p)"
  by (simp add: buttons_synced_def update_display_button_states [symmetric])

lemma animate_start_restyle: "(fst (animate_start d p))\<lparr>elems := elems p\<rparr> = p"
  by (simp add: animate_start_def split: option.split)

lemma animate_end_marks: "marks (elems (animate_end i p)) = marks (elems p)"
  by (cases "i < length (elems p)") (simp_all add: animate_end_def marks_def list_eq_iff_nth_eq nth_list_update)

lemma animate_end_restyle: "(animate_end i p)\<lparr>elems := elems p\<rparr> = p"
  by (simp add: animate_end_def)

lemma synced_animate_start: "synced c p \<Longrightarrow> synced c (fst (animate_start d p))"
  by (rule synced_restyle [OF _ animate_start_marks animate_start_restyle])

lemma synced_animate_end: "synced c p \<Longrightarrow> synced c (animate_end i p)"
  by (rule synced_restyle [OF _ animate_end_marks animate_end_restyle])

lemma buttons_animate [simp]:
  "prev_btn (fst (animate_start d p)) = prev_btn p" "next_btn (fst (animate_start d p)) = next_btn p"
  "prev_btn (animate_end i p) = prev_btn p" "next_btn (animate_end i p) = next_btn p"
  by (simp_all add: animate_start_def animate_end_def split: option.split)

lemma buttons_synced_iff:
  "buttons_synced c t p \<longleftrightarrow>
   prev_btn (update_button_states c t p) = prev_btn p \<and> next_btn (update_button_states c t p) = next_btn p"
proof
  assume "buttons_synced c t p"
  then show "prev_btn (update_button_states c t p) = prev_btn p \<and> next_btn (update_button_states c t p) = next_btn p"
    by (simp add: buttons_synced_def)
next
  assume h: "prev_btn (update_button_states c t p) = prev_btn p \<and> next_btn (update_button_states c t p) = next_btn p"
  show "buttons_synced c t p" unfolding buttons_synced_def
    by (rule page.equality) (use h in \<open>simp_all add: update_button_states_def\<close>)
qed

lemma buttons_synced_animate:
  "buttons_synced c t p \<Longrightarrow> buttons_synced c t (fst (animate_start d p))"
  "buttons_synced c t p \<Longrightarrow> buttons_synced c t (animate_end i p)"
  by (simp_all add: buttons_synced_iff update_button_states_def)


lemma total_text_commute:
  "update_display c (p\<lparr>total_text := x\<rparr>) = (update_display c p)\<lparr>total_text := x\<rparr>"
  "update_button_states c t (p\<lparr>total_text := x\<rparr>) = (update_button_states c t p)\<lparr>total_text := x\<rparr>"
  by (simp_all add: update_display_def update_page_title_def update_button_states_def)

lemma synced_total_text:
  "synced c p \<Longrightarrow> synced c (p\<lparr>total_text := x\<rparr>)"
  "buttons_synced c t p \<Longrightarrow> buttons_synced c t (p\<lparr>total_text := x\<rparr>)"
  by (simp_all only: synced_def buttons_synced_def total_text_commute)


lemma button_update_eq [simp]: "b\<lparr>disabled := x, label := y\<rparr> = b \<longleftrightarrow> disabled b = x \<and> label b = y"
  by (cases b) auto


lemma deck_ok_cong:
  assumes m: "map skel xs = map skel ys"
  shows "deck_ok xs = deck_ok ys"
proof -
  have l: "length xs = length ys" using arg_cong [OF m, of length] by simp
  have n: "j < length xs \<Longrightarrow> skel (xs ! j) = skel (ys ! j)" for j
    using arg_cong [OF m, of "\<lambda>zs. zs ! j"] l by simp
  have a: "(\<forall>e\<in>set xs. \<not> (is_slide e \<and> is_indicator e)) = (\<forall>e\<in>set ys. \<not> (is_slide e \<and> is_indicator e))"
    using n l by (auto simp: skel_def all_set_conv_all_nth)
  have f: "first_index (slide_match c) xs = first_index (slide_match c) ys" for c
    by (rule first_index_cong [OF m, where Q = "\<lambda>(a, b, d). d = Some (int_str c)"])
       (simp_all add: skel_def slide_match_def)
  have s: "first_index (slide_match c) xs = Some i \<Longrightarrow> is_slide (xs ! i) = is_slide (ys ! i)" for c i
    using n by (auto simp: skel_def dest!: first_index_SomeD)
  have i: "map is_indicator xs = map is_indicator ys"
    using arg_cong [OF m, of "map (\<lambda>(a, b, c). b)"] by (simp add: skel_def comp_def)
  have "length (filter is_indicator xs) = length (filter is_indicator ys)"
    using i by (simp only: length_filter_map [of is_indicator])
  moreover have "(\<forall>c\<in>{1..12}. case first_index (slide_match c) xs of Some i \<Rightarrow> is_slide (xs ! i) | None \<Rightarrow> False) =
                 (\<forall>c\<in>{1..12}. case first_index (slide_match c) ys of Some i \<Rightarrow> is_slide (ys ! i) | None \<Rightarrow> False)"
    using f s by (auto split: option.splits)
  ultimately show ?thesis using a by (simp add: deck_ok_def)
qed

lemma skel_strip: "map skel xs = map skel ys \<longleftrightarrow> map (skel \<circ> strip) xs = map (skel \<circ> strip) ys"
  by (simp add: skel_def strip_def comp_def)

lemma deck_ok_update_display [simp]: "deck_ok (elems (update_display c p)) = deck_ok (elems p)"
proof (rule deck_ok_cong)
  have "map skel (map strip (elems (update_display c p))) = map skel (map strip (elems p))"
    by (simp only: update_display_strip)
  then show "map skel (elems (update_display c p)) = map skel (elems p)"
    by (simp only: skel_strip map_map)
qed

lemma skel_marks: "marks xs = marks ys \<Longrightarrow> map skel xs = map skel ys"
proof -
  assume "marks xs = marks ys"
  then have "map (\<lambda>(a, b, c, d, e). (a, b, c)) (marks xs) = map (\<lambda>(a, b, c, d, e). (a, b, c)) (marks ys)" by simp
  then show ?thesis by (simp add: marks_def skel_def comp_def)
qed

lemma deck_ok_animate [simp]:
  "deck_ok (elems (fst (animate_start d p))) = deck_ok (elems p)"
  "deck_ok (elems (animate_end i p)) = deck_ok (elems p)"
  by (rule deck_ok_cong, rule skel_marks, rule animate_start_marks)
     (rule deck_ok_cong, rule skel_marks, rule animate_end_marks)

lemma deck_ok_buttons [simp]:
  "elems (update_button_states c t p) = elems p"
  by (simp add: update_button_states_def)

lemma synced_one_active:
  assumes d: "deck_ok (elems p)" and s: "synced c p" and c: "1 \<le> c" "c \<le> 12"
  shows "\<exists>i. {j. j < length (elems p) \<and> is_slide (elems p ! j) \<and> is_active (elems p ! j)} = {i} \<and>
             data_slide (elems p ! i) = Some (int_str c)"
proof -
  from d c have "case first_index (slide_match c) (elems p) of Some i \<Rightarrow> is_slide (elems p ! i) | None \<Rightarrow> False"
    by (simp add: deck_ok_def)
  then obtain i where m: "first_index (slide_match c) (elems p) = Some i" and si: "is_slide (elems p ! i)"
    by (auto split: option.splits)
  have wf: "\<forall>e\<in>set (elems p). \<not> (is_slide e \<and> is_indicator e)" using d by (simp add: deck_ok_def)
  have "update_display c p = p" using s by (simp add: synced_def)
  then have "{j. j < length (elems p) \<and> is_slide (elems p ! j) \<and> is_active (elems p ! j)} = {i}"
    using update_display_one_slide [OF wf m si] by simp
  moreover have "data_slide (elems p ! i) = Some (int_str c)"
    using m by (auto simp: slide_match_def first_index_Some_iff)
  ultimately show ?thesis by blast
qed

lemma synced_indicators:
  assumes d: "deck_ok (elems p)" and s: "synced c p"
  shows "map is_active (filter is_indicator (elems p)) = map (\<lambda>k. int k + 1 = c) [0..<12]"
  using update_display_indicators [of c p] d s by (simp add: synced_def deck_ok_def)

end
