(* ===== verification/Timers.thy ===== *)
theory Timers
  imports Prelude "HOL-Library.Multiset"
begin

text \<open>
  The browser's timer queue, as \<^verbatim>\<open>src/app.js\<close> uses it through \<^verbatim>\<open>setTimeout\<close>
  (the 50 ms end of a slide animation, the 100 ms screen-reader announcement and its
  1500 ms removal, the fade of a checkbox's completion message). A pending timer is
  its due time in milliseconds and its task; the queue is kept ordered by due time,
  and a timer scheduled for the same due time as others runs after them, as the HTML
  timer ordering requires. The queue is generic in the task type: the event loop
  (theory \<open>EventLoop\<close>) instantiates it with the program's tasks.
  The queue models the browser, not code of the program. The lemmas show that
  scheduling keeps the queue sorted and adds exactly the new timer, and bound the
  weight the event loop's termination measure assigns to it.
\<close>

type_synonym 'a timer_queue = "(nat \<times> 'a) list"

fun schedule :: "nat \<times> 'a \<Rightarrow> 'a timer_queue \<Rightarrow> 'a timer_queue" where
  "schedule x [] = [x]"
| "schedule x (y # ys) = (if fst x < fst y then x # y # ys else y # schedule x ys)"

definition set_timeout :: "nat \<Rightarrow> nat \<Rightarrow> 'a \<Rightarrow> 'a timer_queue \<Rightarrow> 'a timer_queue" where
  \<comment> \<open>\<^verbatim>\<open>setTimeout(task, delay)\<close> at time \<open>now\<close>\<close>
  "set_timeout now delay task q = schedule (now + delay, task) q"

definition next_due :: "nat \<Rightarrow> 'a timer_queue \<Rightarrow> ((nat \<times> 'a) \<times> 'a timer_queue) option" where
  \<comment> \<open>the first timer whose due time has come, removed from the queue\<close>
  "next_due now q = (case q of [] \<Rightarrow> None | x # r \<Rightarrow> if fst x \<le> now then Some (x, r) else None)"

definition queue_weight :: "('a \<Rightarrow> nat) \<Rightarrow> 'a timer_queue \<Rightarrow> nat" where
  \<comment> \<open>a weight per pending task, the measure of the event loop\<close>
  "queue_weight f q = sum_list (map (f \<circ> snd) q)"

definition count_due :: "nat \<Rightarrow> 'a timer_queue \<Rightarrow> nat" where
  "count_due now q = length (filter (\<lambda>x. fst x \<le> now) q)"

section \<open>Lemmas\<close>

lemma mset_schedule [simp]: "mset (schedule x q) = add_mset x (mset q)"
  by (induction x q rule: schedule.induct) auto

lemma set_schedule [simp]: "set (schedule x q) = insert x (set q)"
  by (induction x q rule: schedule.induct) auto

lemma length_schedule [simp]: "length (schedule x q) = Suc (length q)"
  by (induction x q rule: schedule.induct) auto

lemma sorted_schedule: "sorted (map fst q) \<Longrightarrow> sorted (map fst (schedule x q))"
  by (induction x q rule: schedule.induct) auto

lemma count_due_schedule_late:
  "now < fst x \<Longrightarrow> count_due now (schedule x q) = count_due now q"
  by (induction x q rule: schedule.induct) (auto simp: count_due_def)

lemma next_due_count:
  "next_due now q = Some (x, r) \<Longrightarrow> count_due now r < count_due now q"
  by (auto simp: next_due_def count_due_def split: list.splits if_splits)

lemma next_due_sorted:
  "sorted (map fst q) \<Longrightarrow> next_due now q = Some (x, r) \<Longrightarrow> sorted (map fst r)"
  by (auto simp: next_due_def split: list.splits if_splits)

lemma next_due_SomeD:
  "next_due now q = Some (x, r) \<Longrightarrow> q = x # r \<and> fst x \<le> now"
  by (auto simp: next_due_def split: list.splits if_splits)

lemma next_due_None:
  "sorted (map fst q) \<Longrightarrow> next_due now q = None \<Longrightarrow> \<forall>x\<in>set q. now < fst x"
  by (cases q) (auto simp: next_due_def split: if_splits)

lemma queue_weight_schedule [simp]: "queue_weight f (schedule x q) = f (snd x) + queue_weight f q"
  by (induction x q rule: schedule.induct) (auto simp: queue_weight_def)

lemma queue_weight_next_due:
  "next_due now q = Some (x, r) \<Longrightarrow> queue_weight f q = f (snd x) + queue_weight f r"
  by (auto simp: next_due_def queue_weight_def split: list.splits if_splits)

end
