(* ===== verification/Storage.thy ===== *)
theory Storage
  imports Prelude
begin

text \<open>
  The tab's \<^verbatim>\<open>sessionStorage\<close> as \<^verbatim>\<open>src/app.js\<close> uses it: the view history under
  the key \<^verbatim>\<open>clancyPresentationViews\<close> (\<^verbatim>\<open>trackSlideView\<close>), the session identifier
  under \<^verbatim>\<open>clancySessionId\<close> (\<^verbatim>\<open>getSessionId\<close>) and the action-item flags
  \<^verbatim>\<open>clancy-action-<i>\<close> (\<^verbatim>\<open>enableActionItems\<close>). When the storage is not
  \<open>available\<close>, every access throws, and each caller's \<^verbatim>\<open>catch\<close> is a branch of
  the model.
  The view history is stored as the JSON text of an array; \<^verbatim>\<open>JSON.stringify\<close> and
  \<^verbatim>\<open>JSON.parse\<close> are browser built-ins that the model takes as a lossless pair on
  the arrays the program writes, so the key holds the array itself
  (\<open>views_item\<close>, \<open>None\<close> while the key is absent). The other keys hold strings.
\<close>

record view =
  v_slide :: int
  v_timestamp :: nat
  v_title :: string
  v_session :: string

record storage =
  available :: bool
  views_item :: "view list option"
  items :: "string \<Rightarrow> string option"

definition session_key :: string where
  "session_key = ''clancySessionId''"

definition max_views :: nat where
  "max_views = 50"

definition stored_views :: "storage \<Rightarrow> view list" where
  \<comment> \<open>\<^verbatim>\<open>JSON.parse(sessionStorage.getItem('clancyPresentationViews') || '[]')\<close>\<close>
  "stored_views st = (case views_item st of None \<Rightarrow> [] | Some vs \<Rightarrow> vs)"

definition get_session_id :: "nat \<Rightarrow> string \<Rightarrow> storage \<Rightarrow> string \<times> storage" where
  \<comment> \<open>\<open>now\<close> is \<^verbatim>\<open>Date.now()\<close>, \<open>r\<close> the nine characters of
      \<^verbatim>\<open>Math.random().toString(36).substr(2, 9)\<close>\<close>
  "get_session_id now r st =
     (if \<not> available st then (''session_'' @ nat_str now, st)
      else (case items st session_key of
              Some sid \<Rightarrow> if sid \<noteq> [] then (sid, st)
                          else let sid' = ''session_'' @ nat_str now @ ''_'' @ r
                               in (sid', st\<lparr>items := (items st)(session_key \<mapsto> sid')\<rparr>)
            | None \<Rightarrow> let sid' = ''session_'' @ nat_str now @ ''_'' @ r
                      in (sid', st\<lparr>items := (items st)(session_key \<mapsto> sid')\<rparr>)))"

definition record_view :: "view \<Rightarrow> storage \<Rightarrow> storage" where
  \<comment> \<open>the \<^verbatim>\<open>try\<close> block of \<^verbatim>\<open>trackSlideView\<close>: push, keep the last 50, store\<close>
  "record_view v st =
     (if available st then st\<lparr>views_item := Some (keep_last max_views (stored_views st @ [v]))\<rparr>
      else st)"

section \<open>Lemmas\<close>

lemma stored_views_record_view:
  "available st \<Longrightarrow> stored_views (record_view v st) = keep_last max_views (stored_views st @ [v])"
  by (simp add: record_view_def stored_views_def)

lemma record_view_unavailable: "\<not> available st \<Longrightarrow> record_view v st = st"
  by (simp add: record_view_def)

lemma record_view_bound: "length (stored_views st) \<le> max_views \<Longrightarrow>
  length (stored_views (record_view v st)) \<le> max_views"
  by (simp add: record_view_def stored_views_def)

lemma get_session_id_available [simp]: "available (snd (get_session_id now r st)) = available st"
  by (simp add: get_session_id_def Let_def split: option.split)

lemma get_session_id_views [simp]: "views_item (snd (get_session_id now r st)) = views_item st"
  by (simp add: get_session_id_def Let_def split: option.split)

lemma record_view_available [simp]: "available (record_view v st) = available st"
  by (simp add: record_view_def)

lemma get_session_id_frame:
  "get_session_id now r st = (sid, st') \<Longrightarrow> available st' = available st \<and> views_item st' = views_item st"
  using get_session_id_available [of now r st] get_session_id_views [of now r st] by simp

text \<open>Once an identifier is stored, every later call returns it and writes nothing.\<close>

lemma get_session_id_stored:
  "available st \<Longrightarrow> items st session_key = Some sid \<Longrightarrow> sid \<noteq> [] \<Longrightarrow>
   get_session_id now r st = (sid, st)"
  by (simp add: get_session_id_def)

lemma get_session_id_stores:
  "available st \<Longrightarrow> get_session_id now r st = (sid, st') \<Longrightarrow>
   items st' session_key = Some sid \<and> sid \<noteq> []"
  by (auto simp: get_session_id_def Let_def split: option.splits if_splits)


text \<open>C17. With storage available, \<^verbatim>\<open>getSessionId\<close> is stable: a second call, at any later time and with any random draw, returns the identifier the first call returned and writes nothing.\<close>

theorem get_session_id_stable:
  assumes "available st" "get_session_id now r st = (sid, st')"
  shows "get_session_id now' r' st' = (sid, st')"
proof -
  have k: "items st' session_key = Some sid" "sid \<noteq> []" using get_session_id_stores [OF assms] by simp_all
  have "available st'" using get_session_id_frame [OF assms(2)] assms(1) by simp
  then show ?thesis using k by (rule get_session_id_stored)
qed

text \<open>C18. Without storage, \<^verbatim>\<open>getSessionId\<close> falls back to \<^verbatim>\<open>'session_' + Date.now()\<close>, so two calls at different times return different identifiers: the views of one visit do not share a session.\<close>

theorem get_session_id_unstable:
  "\<not> available st \<Longrightarrow> now \<noteq> now' \<Longrightarrow> fst (get_session_id now r st) \<noteq> fst (get_session_id now' r' st)"
  by (simp add: get_session_id_def)

end
