(* ===== verification/Controller.thy ===== *)
theory Controller
  imports Complex_Main Dom Timers Storage
begin

text \<open>
  The Navigation State Machine, \<^verbatim>\<open>class ClancyPresentationController\<close> of
  \<^verbatim>\<open>src/app.js\<close> (lines 3--305). The object's two numeric fields are the record
  \<open>ctrl\<close>; the world \<open>world\<close> extends it with everything a method of the program
  reads or writes: the page, the session storage, the timer queue and the clock, the
  controller's three navigation method slots (which the enhancements replace by
  wrappers, theory \<open>Enhancements\<close>), the \<^verbatim>\<open>window.goToSlide\<close> binding, the
  registered event listeners, the state of the enhancement layer (progress bar,
  live regions for screen readers, fullscreen, help dialogs), the action-item
  checkboxes with their completion messages, whether
  \<^verbatim>\<open>window.clancyPresentationController\<close> is set, and whether the document had
  left the \<^verbatim>\<open>loading\<close> state when the script ran. A pending timer's task names
  the callback it runs: the end of a slide animation, the announcement and its
  removal, the fallback initialisation, and the fade-in, fade-out and removal of a
  checkbox's completion message.
  Each method is one function on the world, its guard and every call it makes
  included. An abstract navigation machine \<open>nav_spec\<close> states what the
  specification (section 4.1) promises; the lemmas show that each method refines it
  on the current slide, keeps the slide number in range, and moves the display and
  the view history along with it.
\<close>

datatype hook = UpdateProgress | Announce

datatype meth = Base | Wrap meth hook

record slots =
  goto_slot :: meth
  next_slot :: meth
  prev_slot :: meth

datatype listener = ClickNav | KeyNav | KeyHelp

datatype task =
    RestoreSlide nat | AnnounceSlide | RemoveAnnouncement nat | FallbackInit
  | MsgFadeIn nat | MsgFadeOut nat | MsgRemove nat

record ctrl =
  currentSlide :: int
  totalSlides :: int

record world = ctrl +
  page :: page
  store :: storage
  timers :: "task timer_queue"
  clock :: nat
  rnd :: string
  slots :: slots
  api_goto :: "meth option"
  listeners :: "listener list"
  progress :: "rat option"
  live_regions :: "(nat \<times> string) list"
  next_node :: nat
  fullscreen :: bool
  fs_request :: bool
  fs_exit :: bool
  dialogs :: nat
  boxes :: "abox list"
  messages :: "(nat \<times> nat \<times> string) list"
  installed :: bool
  doc_ready :: bool

section \<open>Methods of the controller\<close>

definition update_display_w :: "world \<Rightarrow> world" where
  "update_display_w w = w\<lparr>page := update_display (currentSlide w) (page w)\<rparr>"

definition update_button_states_w :: "world \<Rightarrow> world" where
  "update_button_states_w w =
     w\<lparr>page := update_button_states (currentSlide w) (totalSlides w) (page w)\<rparr>"

definition animate_slide_transition :: "dir \<Rightarrow> world \<Rightarrow> world" where
  "animate_slide_transition d w =
     (case animate_start d (page w) of
        (p, None) \<Rightarrow> w\<lparr>page := p\<rparr>
      | (p, Some i) \<Rightarrow> w\<lparr>page := p, timers := set_timeout (clock w) 50 (RestoreSlide i) (timers w)\<rparr>)"

definition track_slide_view :: "int \<Rightarrow> world \<Rightarrow> world" where
  "track_slide_view n w =
     (let title = get_current_slide_title (currentSlide w) (page w);
          (sid, st) = get_session_id (clock w) (rnd w) (store w);
          v = \<lparr>v_slide = n, v_timestamp = clock w, v_title = title, v_session = sid\<rparr>
      in w\<lparr>store := record_view v st\<rparr>)"

definition next_slide :: "world \<Rightarrow> world" where
  "next_slide w =
     (if currentSlide w < totalSlides w then
        let w1 = w\<lparr>currentSlide := currentSlide w + 1\<rparr>;
            w2 = update_display_w w1;
            w3 = update_button_states_w w2;
            w4 = animate_slide_transition Next w3
        in track_slide_view (currentSlide w4) w4
      else w)"

definition previous_slide :: "world \<Rightarrow> world" where
  "previous_slide w =
     (if currentSlide w > 1 then
        let w1 = w\<lparr>currentSlide := currentSlide w - 1\<rparr>;
            w2 = update_display_w w1;
            w3 = update_button_states_w w2;
            w4 = animate_slide_transition Prev w3
        in track_slide_view (currentSlide w4) w4
      else w)"

definition go_to_slide :: "int \<Rightarrow> world \<Rightarrow> world" where
  "go_to_slide n w =
     (if 1 \<le> n \<and> n \<le> totalSlides w \<and> n \<noteq> currentSlide w then
        let d = (if n > currentSlide w then Next else Prev);
            w1 = w\<lparr>currentSlide := n\<rparr>;
            w2 = update_display_w w1;
            w3 = update_button_states_w w2;
            w4 = animate_slide_transition d w3
        in track_slide_view (currentSlide w4) w4
      else w)"

definition toggle_fullscreen :: "world \<Rightarrow> world" where
  "toggle_fullscreen w =
     (if \<not> fullscreen w then (if fs_request w then w\<lparr>fullscreen := True\<rparr> else w)
      else (if fs_exit w then w\<lparr>fullscreen := False\<rparr> else w))"

definition js_round :: "rat \<Rightarrow> int" where
  \<comment> \<open>\<^verbatim>\<open>Math.round\<close>: halves round up\<close>
  "js_round x = \<lfloor>x + 1 / 2\<rfloor>"

definition get_progress :: "world \<Rightarrow> int \<times> int \<times> int \<times> string" where
  "get_progress w =
     (currentSlide w, totalSlides w,
      js_round (of_int (currentSlide w) / of_int (totalSlides w) * 100),
      get_current_slide_title (currentSlide w) (page w))"

definition setup_event_listeners :: "world \<Rightarrow> world" where
  \<comment> \<open>button and indicator clicks, then the keyboard handler\<close>
  "setup_event_listeners w = w\<lparr>listeners := listeners w @ [ClickNav, KeyNav]\<rparr>"

definition new_controller :: "world \<Rightarrow> world" where
  \<comment> \<open>\<^verbatim>\<open>new ClancyPresentationController()\<close> after \<^verbatim>\<open>DOMContentLoaded\<close>: the
      constructor, then \<^verbatim>\<open>init()\<close> with the document no longer loading\<close>
  "new_controller w =
     (let w1 = w\<lparr>currentSlide := 1, totalSlides := 12,
                 slots := \<lparr>goto_slot = Base, next_slot = Base, prev_slot = Base\<rparr>\<rparr>;
          w2 = setup_event_listeners w1;
          w3 = update_display_w w2;
          w4 = update_button_states_w w3;
          p = page w4
      in w4\<lparr>page := p\<lparr>total_text := map_option (\<lambda>_. int_str (totalSlides w4)) (total_text p)\<rparr>\<rparr>)"

section \<open>The abstract navigation machine\<close>

text \<open>
  Section 4.1 of the specification: \<open>advance\<close>, \<open>retreat\<close> and \<open>goTo(n)\<close> on a
  position in \<open>1..total\<close>, with silent rejection at the boundaries and out of range.
\<close>

datatype nav_op = Advance | Retreat | GoTo int

fun nav_spec :: "int \<Rightarrow> nav_op \<Rightarrow> int \<Rightarrow> int" where
  "nav_spec t Advance c = (if c < t then c + 1 else c)"
| "nav_spec t Retreat c = (if 1 < c then c - 1 else c)"
| "nav_spec t (GoTo n) c = (if 1 \<le> n \<and> n \<le> t \<and> n \<noteq> c then n else c)"

primrec base_op :: "nav_op \<Rightarrow> world \<Rightarrow> world" where
  "base_op Advance w = next_slide w"
| "base_op Retreat w = previous_slide w"
| "base_op (GoTo n) w = go_to_slide n w"

definition nav_inv :: "'a ctrl_scheme \<Rightarrow> bool" where
  "nav_inv w \<longleftrightarrow> 1 \<le> currentSlide w \<and> currentSlide w \<le> totalSlides w"

section \<open>Lemmas\<close>

lemma track_slide_view_simps [simp]:
  "currentSlide (track_slide_view n w) = currentSlide w"
  "totalSlides (track_slide_view n w) = totalSlides w"
  "page (track_slide_view n w) = page w"
  "timers (track_slide_view n w) = timers w"
  "slots (track_slide_view n w) = slots w"
  "clock (track_slide_view n w) = clock w"
  "available (store (track_slide_view n w)) = available (store w)"
  by (simp_all add: track_slide_view_def get_session_id_frame split: prod.split)

lemma animate_simps [simp]:
  "currentSlide (animate_slide_transition d w) = currentSlide w"
  "totalSlides (animate_slide_transition d w) = totalSlides w"
  "store (animate_slide_transition d w) = store w"
  "slots (animate_slide_transition d w) = slots w"
  "clock (animate_slide_transition d w) = clock w"
  by (simp_all add: animate_slide_transition_def split: prod.split option.split)

lemma display_w_simps [simp]:
  "currentSlide (update_display_w w) = currentSlide w"
  "totalSlides (update_display_w w) = totalSlides w"
  "store (update_display_w w) = store w"
  "timers (update_display_w w) = timers w"
  "slots (update_display_w w) = slots w"
  "clock (update_display_w w) = clock w"
  "currentSlide (update_button_states_w w) = currentSlide w"
  "totalSlides (update_button_states_w w) = totalSlides w"
  "store (update_button_states_w w) = store w"
  "timers (update_button_states_w w) = timers w"
  "slots (update_button_states_w w) = slots w"
  "clock (update_button_states_w w) = clock w"
  by (simp_all add: update_display_w_def update_button_states_w_def)

theorem base_op_refines:
  "currentSlide (base_op op w) = nav_spec (totalSlides w) op (currentSlide w) \<and>
   totalSlides (base_op op w) = totalSlides w"
  by (cases op) (simp_all add: next_slide_def previous_slide_def go_to_slide_def Let_def)

lemma nav_spec_range: "1 \<le> c \<Longrightarrow> c \<le> t \<Longrightarrow> 1 \<le> nav_spec t op c \<and> nav_spec t op c \<le> t"
  by (cases op) auto

text \<open>C2. Each navigation method (\<^verbatim>\<open>nextSlide\<close>, \<^verbatim>\<open>previousSlide\<close>, \<^verbatim>\<open>goToSlide\<close>) keeps the current slide within \<open>1..totalSlides\<close>.\<close>

theorem base_op_nav_inv: "nav_inv w \<Longrightarrow> nav_inv (base_op op w)"
  using base_op_refines [of op w] nav_spec_range by (simp add: nav_inv_def)

text \<open>Every rejected request is a complete no-op of the base method.\<close>

lemma go_to_slide_rejected:
  "\<not> (1 \<le> n \<and> n \<le> totalSlides w \<and> n \<noteq> currentSlide w) \<Longrightarrow> go_to_slide n w = w"
  unfolding go_to_slide_def by (rule if_not_P)

lemma next_slide_last: "\<not> currentSlide w < totalSlides w \<Longrightarrow> next_slide w = w"
  unfolding next_slide_def by (rule if_not_P)

lemma previous_slide_first: "\<not> 1 < currentSlide w \<Longrightarrow> previous_slide w = w"
  unfolding previous_slide_def by (rule if_not_P)

lemma toggle_fullscreen_frame [simp]:
  "currentSlide (toggle_fullscreen w) = currentSlide w" "totalSlides (toggle_fullscreen w) = totalSlides w"
  "store (toggle_fullscreen w) = store w" "page (toggle_fullscreen w) = page w"
  "slots (toggle_fullscreen w) = slots w" "listeners (toggle_fullscreen w) = listeners w"
  by (simp_all add: toggle_fullscreen_def)

lemma track_slide_view_views:
  assumes "available (store w)"
  shows "map v_slide (stored_views (store (track_slide_view n w))) =
         keep_last max_views (map v_slide (stored_views (store w)) @ [n])"
proof -
  obtain sid st' where s: "get_session_id (clock w) (rnd w) (store w) = (sid, st')"
    by (cases "get_session_id (clock w) (rnd w) (store w)")
  from s have f: "available st' = available (store w)" "views_item st' = views_item (store w)"
    by (auto dest: get_session_id_frame)
  have v: "stored_views st' = stored_views (store w)" using f by (simp add: stored_views_def)
  show ?thesis using assms s f
    by (simp add: track_slide_view_def stored_views_record_view map_keep_last v)
qed

lemma go_to_slide_views:
  assumes "1 \<le> n" "n \<le> totalSlides w" "n \<noteq> currentSlide w" "available (store w)"
  shows "map v_slide (stored_views (store (go_to_slide n w))) =
         keep_last max_views (map v_slide (stored_views (store w)) @ [n])"
  using assms by (simp add: go_to_slide_def Let_def track_slide_view_views)

lemma go_to_slide_available [simp]: "available (store (go_to_slide n w)) = available (store w)"
  by (simp add: go_to_slide_def Let_def)


lemma method_frame [simp]:
  "installed (track_slide_view n w) = installed w" "api_goto (track_slide_view n w) = api_goto w"
  "listeners (track_slide_view n w) = listeners w" "progress (track_slide_view n w) = progress w"
  "installed (animate_slide_transition d w) = installed w" "api_goto (animate_slide_transition d w) = api_goto w"
  "listeners (animate_slide_transition d w) = listeners w" "progress (animate_slide_transition d w) = progress w"
  "installed (update_display_w w) = installed w" "api_goto (update_display_w w) = api_goto w"
  "listeners (update_display_w w) = listeners w" "progress (update_display_w w) = progress w"
  "installed (update_button_states_w w) = installed w" "api_goto (update_button_states_w w) = api_goto w"
  "listeners (update_button_states_w w) = listeners w" "progress (update_button_states_w w) = progress w"
  by (simp_all add: track_slide_view_def animate_slide_transition_def update_display_w_def
      update_button_states_w_def split: prod.split option.split)

lemma nav_methods_frame [simp]:
  "installed (go_to_slide n w) = installed w" "slots (go_to_slide n w) = slots w"
  "api_goto (go_to_slide n w) = api_goto w" "listeners (go_to_slide n w) = listeners w"
  "progress (go_to_slide n w) = progress w"
  "installed (next_slide w) = installed w" "slots (next_slide w) = slots w"
  "api_goto (next_slide w) = api_goto w" "listeners (next_slide w) = listeners w"
  "progress (next_slide w) = progress w"
  "installed (previous_slide w) = installed w" "slots (previous_slide w) = slots w"
  "api_goto (previous_slide w) = api_goto w" "listeners (previous_slide w) = listeners w"
  "progress (previous_slide w) = progress w"
  by (simp_all add: next_slide_def previous_slide_def go_to_slide_def Let_def)

lemma track_slide_view_bound:
  "length (stored_views (store w)) \<le> max_views \<Longrightarrow>
   length (stored_views (store (track_slide_view n w))) \<le> max_views"
proof -
  assume b: "length (stored_views (store w)) \<le> max_views"
  obtain sid st' where s: "get_session_id (clock w) (rnd w) (store w) = (sid, st')"
    by (cases "get_session_id (clock w) (rnd w) (store w)")
  then have "stored_views st' = stored_views (store w)"
    by (auto dest: get_session_id_frame simp: stored_views_def)
  then show ?thesis using b s
    by (simp add: track_slide_view_def record_view_bound)
qed


text \<open>C16. Without session storage, \<^verbatim>\<open>trackSlideView\<close> records the view nowhere: the whole world, storage and every in-memory field alike, is left unchanged, although the code's comment says that views are then tracked in memory.\<close>

theorem track_slide_view_unavailable: "\<not> available (store w) \<Longrightarrow> track_slide_view n w = w"
  by (simp add: track_slide_view_def get_session_id_def record_view_unavailable Let_def)

end
