(* ===== verification/Enhancements.thy ===== *)
theory Enhancements
  imports Controller
begin

text \<open>
  The Extension Layer, \<^verbatim>\<open>class ClancyPresentationEnhancements\<close> of
  \<^verbatim>\<open>src/app.js\<close> (lines 308--505). Its modules replace the controller's
  \<^verbatim>\<open>goToSlide\<close>, \<^verbatim>\<open>nextSlide\<close> and \<^verbatim>\<open>previousSlide\<close> by closures that call
  the method captured at installation and then run a side effect. A slot of the
  controller is therefore a chain \<open>meth\<close>: \<open>Base\<close> is the prototype method,
  \<open>Wrap m h\<close> the closure that runs \<open>m\<close> and then the hook \<open>h\<close>; \<open>run_meth\<close>
  runs a chain on the base operation it was called for. The hooks are the progress
  bar update (\<^verbatim>\<open>updateProgress\<close>) and the deferred screen-reader announcement
  (\<^verbatim>\<open>setTimeout(announceSlide, 100)\<close>; the announcement itself is a timer
  callback, theory \<open>Tasks\<close>). \<^verbatim>\<open>window.goToSlide\<close> is the chain the slot held
  when \<^verbatim>\<open>addBusinessFeatures\<close> ran.
  The lemmas show that no hook moves the current slide (so the wrapped methods refine
  the same abstract machine), what \<^verbatim>\<open>init()\<close> installs on a fresh controller and
  what \<^verbatim>\<open>window.goToSlide\<close> captures, that a rejected \<^verbatim>\<open>goToSlide\<close> still runs
  the hooks, and that a second \<^verbatim>\<open>init()\<close> double-wraps.
\<close>

definition update_progress :: "world \<Rightarrow> world" where
  \<comment> \<open>\<^verbatim>\<open>fill.style.width = `${percentage}%`\<close>\<close>
  "update_progress w =
     w\<lparr>progress := Some (of_int (currentSlide w) / of_int (totalSlides w) * 100)\<rparr>"

definition announce_later :: "world \<Rightarrow> world" where
  "announce_later w = w\<lparr>timers := set_timeout (clock w) 100 AnnounceSlide (timers w)\<rparr>"

primrec run_hook :: "hook \<Rightarrow> world \<Rightarrow> world" where
  "run_hook UpdateProgress w = update_progress w"
| "run_hook Announce w = announce_later w"

primrec run_meth :: "meth \<Rightarrow> (world \<Rightarrow> world) \<Rightarrow> world \<Rightarrow> world" where
  "run_meth Base f w = f w"
| "run_meth (Wrap m h) f w = run_hook h (run_meth m f w)"

definition call_goto :: "int \<Rightarrow> world \<Rightarrow> world" where
  \<comment> \<open>\<^verbatim>\<open>this.goToSlide(n)\<close>, through whatever the slot holds now\<close>
  "call_goto n w = run_meth (goto_slot (slots w)) (go_to_slide n) w"

definition call_next :: "world \<Rightarrow> world" where
  "call_next w = run_meth (next_slot (slots w)) next_slide w"

definition call_prev :: "world \<Rightarrow> world" where
  "call_prev w = run_meth (prev_slot (slots w)) previous_slide w"

definition add_progress_bar :: "world \<Rightarrow> world" where
  "add_progress_bar w =
     (let s = slots w;
          w1 = w\<lparr>progress := Some (of_int (currentSlide w) / of_int (totalSlides w) * 100),
                 slots := \<lparr>goto_slot = Wrap (goto_slot s) UpdateProgress,
                           next_slot = Wrap (next_slot s) UpdateProgress,
                           prev_slot = Wrap (prev_slot s) UpdateProgress\<rparr>\<rparr>
      in update_progress w1)"

definition add_business_features :: "world \<Rightarrow> world" where
  \<comment> \<open>\<^verbatim>\<open>window.goToSlide = this.controller.goToSlide.bind(this.controller)\<close>\<close>
  "add_business_features w = w\<lparr>api_goto := Some (goto_slot (slots w))\<rparr>"

definition enhance_accessibility :: "world \<Rightarrow> world" where
  "enhance_accessibility w = w\<lparr>slots := (slots w)\<lparr>goto_slot := Wrap (goto_slot (slots w)) Announce\<rparr>\<rparr>"

definition add_presentation_utilities :: "world \<Rightarrow> world" where
  \<comment> \<open>the F1 / Shift+? keyboard listener\<close>
  "add_presentation_utilities w = w\<lparr>listeners := listeners w @ [KeyHelp]\<rparr>"

definition init_enhancements :: "world \<Rightarrow> world" where
  \<comment> \<open>\<^verbatim>\<open>new ClancyPresentationEnhancements(controller)\<close>: \<^verbatim>\<open>init()\<close>\<close>
  "init_enhancements w =
     add_presentation_utilities (enhance_accessibility (add_business_features (add_progress_bar w)))"

definition api_go_to_slide :: "int \<Rightarrow> world \<Rightarrow> world" where
  \<comment> \<open>a call of \<^verbatim>\<open>window.goToSlide(n)\<close>\<close>
  "api_go_to_slide n w = (case api_goto w of None \<Rightarrow> w | Some m \<Rightarrow> run_meth m (go_to_slide n) w)"

section \<open>Installation order\<close>

definition install :: "hook list \<Rightarrow> meth \<Rightarrow> meth" where
  \<comment> \<open>wrapping a slot once per hook, first hook first\<close>
  "install hs m = foldl Wrap m hs"

definition enhanced_slots :: slots where
  "enhanced_slots =
     \<lparr>goto_slot = install [UpdateProgress, Announce] Base,
      next_slot = install [UpdateProgress] Base,
      prev_slot = install [UpdateProgress] Base\<rparr>"

section \<open>Lemmas\<close>

lemma run_hook_frame [simp]:
  "currentSlide (run_hook h w) = currentSlide w" "totalSlides (run_hook h w) = totalSlides w"
  "page (run_hook h w) = page w" "store (run_hook h w) = store w" "slots (run_hook h w) = slots w"
  "clock (run_hook h w) = clock w" "api_goto (run_hook h w) = api_goto w"
  "listeners (run_hook h w) = listeners w" "live_regions (run_hook h w) = live_regions w"
  by (cases h; simp add: update_progress_def announce_later_def)+

lemma run_meth_frame [simp]:
  "currentSlide (run_meth m f w) = currentSlide (f w)" "totalSlides (run_meth m f w) = totalSlides (f w)"
  "page (run_meth m f w) = page (f w)" "store (run_meth m f w) = store (f w)"
  "slots (run_meth m f w) = slots (f w)" "clock (run_meth m f w) = clock (f w)"
  "api_goto (run_meth m f w) = api_goto (f w)" "listeners (run_meth m f w) = listeners (f w)"
  by (induction m) simp_all

lemma store_call_goto: "store (call_goto n w) = store (go_to_slide n w)"
  by (simp add: call_goto_def)

lemma call_refines:
  "currentSlide (call_goto n w) = nav_spec (totalSlides w) (GoTo n) (currentSlide w)"
  "currentSlide (call_next w) = nav_spec (totalSlides w) Advance (currentSlide w)"
  "currentSlide (call_prev w) = nav_spec (totalSlides w) Retreat (currentSlide w)"
  "totalSlides (call_goto n w) = totalSlides w" "totalSlides (call_next w) = totalSlides w"
  "totalSlides (call_prev w) = totalSlides w"
  using base_op_refines [of "GoTo n" w] base_op_refines [of Advance w] base_op_refines [of Retreat w]
  by (simp_all add: call_goto_def call_next_def call_prev_def)

lemma enhanced_calls:
  assumes "slots w = enhanced_slots"
  shows "call_goto n w = announce_later (update_progress (go_to_slide n w))"
    "call_next w = update_progress (next_slide w)"
    "call_prev w = update_progress (previous_slide w)"
  using assms by (simp_all add: call_goto_def call_next_def call_prev_def enhanced_slots_def install_def)

lemma init_enhancements_fields:
  "slots w = \<lparr>goto_slot = Base, next_slot = Base, prev_slot = Base\<rparr> \<Longrightarrow>
   slots (init_enhancements w) = enhanced_slots \<and>
   api_goto (init_enhancements w) = Some (install [UpdateProgress] Base) \<and>
   listeners (init_enhancements w) = listeners w @ [KeyHelp]"
  by (simp add: init_enhancements_def add_presentation_utilities_def enhance_accessibility_def
      add_business_features_def add_progress_bar_def update_progress_def enhanced_slots_def install_def Let_def)

lemma init_enhancements_nav [simp]:
  "currentSlide (init_enhancements w) = currentSlide w" "totalSlides (init_enhancements w) = totalSlides w"
  "page (init_enhancements w) = page w" "store (init_enhancements w) = store w"
  "timers (init_enhancements w) = timers w" "clock (init_enhancements w) = clock w"
  by (simp_all add: init_enhancements_def add_presentation_utilities_def enhance_accessibility_def
      add_business_features_def add_progress_bar_def update_progress_def Let_def)

text \<open>C6. With the enhancements installed, a rejected \<^verbatim>\<open>goToSlide(n)\<close> (out of range or the current slide) is not free of side effects: it leaves the slide alone but still updates the progress bar and schedules a screen-reader announcement.\<close>

theorem enhanced_goto_rejected:
  "slots w = enhanced_slots \<Longrightarrow> \<not> (1 \<le> n \<and> n \<le> totalSlides w \<and> n \<noteq> currentSlide w) \<Longrightarrow>
   call_goto n w = announce_later (update_progress w)"
  by (simp add: call_goto_def enhanced_slots_def install_def go_to_slide_rejected)

lemma announce_later_changes: "announce_later w \<noteq> w"
proof
  assume "announce_later w = w"
  then have "length (timers (announce_later w)) = length (timers w)" by simp
  then show False by (simp add: announce_later_def set_timeout_def)
qed


lemma init_enhancements_slots:
  "slots (init_enhancements w) =
     \<lparr>goto_slot = Wrap (Wrap (goto_slot (slots w)) UpdateProgress) Announce,
      next_slot = Wrap (next_slot (slots w)) UpdateProgress,
      prev_slot = Wrap (prev_slot (slots w)) UpdateProgress\<rparr>"
  by (simp add: init_enhancements_def add_presentation_utilities_def enhance_accessibility_def
      add_business_features_def add_progress_bar_def update_progress_def Let_def)

lemma call_next_funpow:
  "currentSlide w \<le> totalSlides w \<Longrightarrow>
   currentSlide ((call_next ^^ k) w) = min (currentSlide w + int k) (totalSlides w) \<and>
   totalSlides ((call_next ^^ k) w) = totalSlides w"
  by (induction k) (auto simp: call_refines)

text \<open>C19. The scenario of section 8 of the specification, through the installed methods: from slide 1 of 12, six \<^verbatim>\<open>nextSlide\<close> calls reach slide 7, \<^verbatim>\<open>goToSlide(12)\<close> reaches slide 12 animating forward, and \<^verbatim>\<open>previousSlide\<close> reaches slide 11.\<close>

theorem spec_scenario:
  assumes "totalSlides w = 12" "currentSlide w = 1"
  shows "currentSlide ((call_next ^^ 6) w) = 7 \<and>
         currentSlide (call_goto 12 ((call_next ^^ 6) w)) = 12 \<and>
         go_to_slide 12 ((call_next ^^ 6) w) =
           track_slide_view 12 (animate_slide_transition Next (update_button_states_w
             (update_display_w (((call_next ^^ 6) w)\<lparr>currentSlide := 12\<rparr>)))) \<and>
         currentSlide (call_prev (call_goto 12 ((call_next ^^ 6) w))) = 11"
proof -
  have "currentSlide ((call_next ^^ 6) w) = 7" "totalSlides ((call_next ^^ 6) w) = 12"
    using call_next_funpow [of w 6] assms by simp_all
  then show ?thesis by (simp add: call_refines go_to_slide_def Let_def)
qed

text \<open>C20. Initialising the enhancements a second time, which the specification calls an accepted fragility, double-wraps the methods: every \<^verbatim>\<open>goToSlide\<close> then updates the progress bar twice and schedules two announcements.\<close>

theorem reinit_double_wraps:
  assumes "slots w = \<lparr>goto_slot = Base, next_slot = Base, prev_slot = Base\<rparr>"
  shows "call_goto n (init_enhancements (init_enhancements w)) =
         announce_later (update_progress (announce_later (update_progress
           (go_to_slide n (init_enhancements (init_enhancements w))))))"
  using assms by (simp add: call_goto_def init_enhancements_slots)


text \<open>C4. The methods \<^verbatim>\<open>init()\<close> installs on a fresh controller: \<^verbatim>\<open>goToSlide\<close> runs the prototype method, then the progress update (so the bar shows the new slide), then schedules the announcement; \<^verbatim>\<open>nextSlide\<close> and \<^verbatim>\<open>previousSlide\<close> run the prototype method and then the progress update. The two side effects write different state, so their relative order is not observable.\<close>

theorem installed_methods:
  assumes "slots w = \<lparr>goto_slot = Base, next_slot = Base, prev_slot = Base\<rparr>"
  shows "call_goto n (init_enhancements w) = announce_later (update_progress (go_to_slide n (init_enhancements w))) \<and>
         call_next (init_enhancements w) = update_progress (next_slide (init_enhancements w)) \<and>
         call_prev (init_enhancements w) = update_progress (previous_slide (init_enhancements w))"
  using assms by (simp add: call_goto_def call_next_def call_prev_def init_enhancements_slots)

text \<open>C7. \<^verbatim>\<open>init()\<close> runs \<^verbatim>\<open>addBusinessFeatures\<close> before \<^verbatim>\<open>enhanceAccessibility\<close>, so \<^verbatim>\<open>window.goToSlide\<close> captures the method with the progress wrapper only: it differs from the controller's \<^verbatim>\<open>goToSlide\<close> exactly by the missing announcement.\<close>

theorem api_goto_unannounced:
  assumes "slots w = \<lparr>goto_slot = Base, next_slot = Base, prev_slot = Base\<rparr>"
  shows "api_go_to_slide n (init_enhancements w) = update_progress (go_to_slide n (init_enhancements w)) \<and>
         call_goto n (init_enhancements w) = announce_later (api_go_to_slide n (init_enhancements w))"
proof -
  have "api_goto (init_enhancements w) = Some (Wrap Base UpdateProgress)"
    using assms by (simp add: init_enhancements_def add_presentation_utilities_def enhance_accessibility_def
        add_business_features_def add_progress_bar_def update_progress_def Let_def)
  then show ?thesis using assms
    by (simp add: api_go_to_slide_def call_goto_def init_enhancements_slots)
qed

end
