(* ===== verification/Input.thy ===== *)
theory Input
  imports Enhancements
begin

text \<open>
  The Input Router of \<^verbatim>\<open>src/app.js\<close>: \<^verbatim>\<open>handleKeyPress\<close> (lines 164--215), the
  help listener of \<^verbatim>\<open>addPresentationUtilities\<close> (lines 498--503) and the click
  listeners of \<^verbatim>\<open>setupEventListeners\<close> (lines 42--65). A handler returns the new
  world and whether it called \<^verbatim>\<open>preventDefault()\<close>. The keyboard handler runs its
  four tests one after the other, as the code does: the \<^verbatim>\<open>switch\<close>, the digit test
  (a string comparison \<^verbatim>\<open>'1' <= key <= '9'\<close> and \<^verbatim>\<open>parseInt\<close>), the \<^verbatim>\<open>'0'\<close>
  test and the Ctrl test; each navigation call goes through the controller's current
  method slot. \<open>key_ops\<close> lists the abstract operations a key triggers and
  \<open>spec_key_ops\<close> the table of section 4.3 of the specification; the lemmas relate
  the handler to the first and compare the two.
\<close>

record key_event =
  key :: string
  ctrl_key :: bool
  shift_key :: bool

definition key_switch :: "key_event \<Rightarrow> world \<Rightarrow> world \<times> bool" where
  \<comment> \<open>the \<^verbatim>\<open>switch(event.key)\<close>\<close>
  "key_switch e w =
     (let k = key e in
        if k = ''ArrowRight'' \<or> k = '' '' then (call_next w, True)
        else if k = ''ArrowLeft'' then (call_prev w, True)
        else if k = ''Home'' then (call_goto 1 w, True)
        else if k = ''End'' then (call_goto (totalSlides w) w, True)
        else if k = ''Escape'' then (toggle_fullscreen w, True)
        else (w, False))"

definition key_digit :: "key_event \<Rightarrow> world \<times> bool \<Rightarrow> world \<times> bool" where
  \<comment> \<open>\<^verbatim>\<open>if (event.key >= '1' && event.key <= '9')\<close>\<close>
  "key_digit e wp =
     (let k = key e; (w, p) = wp in
        if ''1'' \<le> k \<and> k \<le> ''9'' then
          (case parse_int k of
             Some n \<Rightarrow> if n \<le> totalSlides w then (call_goto n w, True) else (w, p)
           | None \<Rightarrow> (w, p))
        else (w, p))"

definition key_zero :: "key_event \<Rightarrow> world \<times> bool \<Rightarrow> world \<times> bool" where
  "key_zero e wp =
     (let (w, p) = wp in
        if key e = ''0'' \<and> 10 \<le> totalSlides w then (call_goto 10 w, True) else (w, p))"

definition key_ctrl :: "key_event \<Rightarrow> world \<times> bool \<Rightarrow> world \<times> bool" where
  "key_ctrl e wp =
     (let (w, p) = wp in
        if ctrl_key e then
          if key e = ''1'' \<and> 11 \<le> totalSlides w then (call_goto 11 w, True)
          else if key e = ''2'' \<and> 12 \<le> totalSlides w then (call_goto 12 w, True)
          else (w, p)
        else (w, p))"

definition handle_key_press :: "key_event \<Rightarrow> world \<Rightarrow> world \<times> bool" where
  "handle_key_press e w = key_ctrl e (key_zero e (key_digit e (key_switch e w)))"

definition show_keyboard_shortcuts :: "world \<Rightarrow> world" where
  \<comment> \<open>\<^verbatim>\<open>alert(shortcuts)\<close>; the console output is not modelled\<close>
  "show_keyboard_shortcuts w = w\<lparr>dialogs := Suc (dialogs w)\<rparr>"

definition handle_help_key :: "key_event \<Rightarrow> world \<Rightarrow> world \<times> bool" where
  "handle_help_key e w =
     (if key e = ''F1'' \<or> (key e = ''?'' \<and> shift_key e) then (show_keyboard_shortcuts w, True)
      else (w, False))"

fun key_listener :: "listener \<Rightarrow> key_event \<Rightarrow> world \<Rightarrow> world \<times> bool" where
  "key_listener KeyNav e w = handle_key_press e w"
| "key_listener KeyHelp e w = handle_help_key e w"
| "key_listener ClickNav e w = (w, False)"

fun dispatch_keydown :: "listener list \<Rightarrow> key_event \<Rightarrow> world \<Rightarrow> world \<times> bool" where
  \<comment> \<open>the document's \<^verbatim>\<open>keydown\<close> listeners, in registration order\<close>
  "dispatch_keydown [] e w = (w, False)"
| "dispatch_keydown (l # ls) e w =
     (let (w1, p1) = key_listener l e w;
          (w2, p2) = dispatch_keydown ls e w1
      in (w2, p1 \<or> p2))"

definition run_clicks :: "listener list \<Rightarrow> (world \<Rightarrow> world) \<Rightarrow> world \<Rightarrow> world" where
  \<comment> \<open>one call per click listener that \<^verbatim>\<open>setupEventListeners\<close> registered\<close>
  "run_clicks ls f w = fold (\<lambda>l. if l = ClickNav then f else id) ls w"

definition click_prev :: "world \<Rightarrow> world" where
  \<comment> \<open>a disabled button dispatches no click\<close>
  "click_prev w =
     (case prev_btn (page w) of
        None \<Rightarrow> w
      | Some b \<Rightarrow> if disabled b then w else run_clicks (listeners w) call_prev w)"

definition click_next :: "world \<Rightarrow> world" where
  "click_next w =
     (case next_btn (page w) of
        None \<Rightarrow> w
      | Some b \<Rightarrow> if disabled b then w else run_clicks (listeners w) call_next w)"

definition click_indicator :: "nat \<Rightarrow> world \<Rightarrow> world" where
  \<comment> \<open>a click on the indicator with index \<open>i\<close>: \<^verbatim>\<open>this.goToSlide(index + 1)\<close>\<close>
  "click_indicator i w =
     (if i < length (filter is_indicator (elems (page w)))
      then run_clicks (listeners w) (call_goto (int i + 1)) w else w)"

section \<open>The router as abstract operations\<close>

definition switch_ops :: "key_event \<Rightarrow> int \<Rightarrow> nav_op list" where
  "switch_ops e t =
     (let k = key e in
        if k = ''ArrowRight'' \<or> k = '' '' then [Advance]
        else if k = ''ArrowLeft'' then [Retreat]
        else if k = ''Home'' then [GoTo 1]
        else if k = ''End'' then [GoTo t] else [])"

definition digit_ops :: "key_event \<Rightarrow> int \<Rightarrow> nav_op list" where
  "digit_ops e t =
     (if ''1'' \<le> key e \<and> key e \<le> ''9'' then
        (case parse_int (key e) of Some n \<Rightarrow> if n \<le> t then [GoTo n] else [] | None \<Rightarrow> [])
      else [])"

definition zero_ops :: "key_event \<Rightarrow> int \<Rightarrow> nav_op list" where
  "zero_ops e t = (if key e = ''0'' \<and> 10 \<le> t then [GoTo 10] else [])"

definition ctrl_ops :: "key_event \<Rightarrow> int \<Rightarrow> nav_op list" where
  "ctrl_ops e t =
     (if ctrl_key e \<and> key e = ''1'' \<and> 11 \<le> t then [GoTo 11]
      else if ctrl_key e \<and> key e = ''2'' \<and> 12 \<le> t then [GoTo 12] else [])"

definition key_ops :: "key_event \<Rightarrow> int \<Rightarrow> nav_op list" where
  \<comment> \<open>what \<^verbatim>\<open>handleKeyPress\<close> asks of the navigation machine, in order\<close>
  "key_ops e t = switch_ops e t @ digit_ops e t @ zero_ops e t @ ctrl_ops e t"

definition spec_key_ops :: "key_event \<Rightarrow> int \<Rightarrow> nav_op list" where
  \<comment> \<open>the table of section 4.3: one operation per matched input\<close>
  "spec_key_ops e t =
     (let k = key e in
        if k = ''ArrowRight'' \<or> k = '' '' then [Advance]
        else if k = ''ArrowLeft'' then [Retreat]
        else if k = ''Home'' then [GoTo 1]
        else if k = ''End'' then [GoTo t]
        else if ctrl_key e \<and> k = ''1'' then (if 11 \<le> t then [GoTo 11] else [])
        else if ctrl_key e \<and> k = ''2'' then (if 12 \<le> t then [GoTo 12] else [])
        else if k = ''0'' then (if 10 \<le> t then [GoTo 10] else [])
        else if length k = 1 \<and> CHR ''1'' \<le> hd k \<and> hd k \<le> CHR ''9'' then
          (if int (of_char (hd k) - 48) \<le> t then [GoTo (int (of_char (hd k) - 48))] else [])
        else [])"

section \<open>Lemmas\<close>

lemma key_switch_refines:
  "currentSlide (fst (key_switch e w)) = fold (nav_spec (totalSlides w)) (switch_ops e (totalSlides w)) (currentSlide w) \<and>
   totalSlides (fst (key_switch e w)) = totalSlides w"
  by (simp add: key_switch_def switch_ops_def Let_def call_refines)

lemma key_digit_refines:
  "currentSlide (fst (key_digit e wp)) = fold (nav_spec (totalSlides (fst wp))) (digit_ops e (totalSlides (fst wp))) (currentSlide (fst wp)) \<and>
   totalSlides (fst (key_digit e wp)) = totalSlides (fst wp)"
  by (cases wp) (simp add: key_digit_def digit_ops_def Let_def call_refines split: option.split)

lemma key_zero_refines:
  "currentSlide (fst (key_zero e wp)) = fold (nav_spec (totalSlides (fst wp))) (zero_ops e (totalSlides (fst wp))) (currentSlide (fst wp)) \<and>
   totalSlides (fst (key_zero e wp)) = totalSlides (fst wp)"
  by (cases wp) (simp add: key_zero_def zero_ops_def call_refines)

lemma key_ctrl_refines:
  "currentSlide (fst (key_ctrl e wp)) = fold (nav_spec (totalSlides (fst wp))) (ctrl_ops e (totalSlides (fst wp))) (currentSlide (fst wp)) \<and>
   totalSlides (fst (key_ctrl e wp)) = totalSlides (fst wp)"
  by (cases wp) (simp add: key_ctrl_def ctrl_ops_def call_refines)

text \<open>
  The keyboard handler refines the abstract navigation machine: the slide it leaves
  the controller on is the abstract machine run over the operations \<open>key_ops\<close>
  lists for the key, in order, whatever the installed wrappers are.
\<close>

lemma key_ops_sound:
  "currentSlide (fst (handle_key_press e w)) =
     fold (nav_spec (totalSlides w)) (key_ops e (totalSlides w)) (currentSlide w)"
  using key_switch_refines [of e w] key_digit_refines [of e "key_switch e w"]
    key_zero_refines [of e "key_digit e (key_switch e w)"]
    key_ctrl_refines [of e "key_zero e (key_digit e (key_switch e w))"]
  by (simp add: handle_key_press_def key_ops_def)

lemma stage_pass:
  "\<not> snd (key_digit e wp) \<Longrightarrow> key_digit e wp = wp"
  "\<not> snd (key_zero e wp) \<Longrightarrow> key_zero e wp = wp"
  "\<not> snd (key_ctrl e wp) \<Longrightarrow> key_ctrl e wp = wp"
  "\<not> snd (key_switch e w) \<Longrightarrow> key_switch e w = (w, False)"
  by (cases wp; auto simp: key_digit_def key_zero_def key_ctrl_def key_switch_def Let_def
      split: option.splits if_splits)+

lemma stage_keeps_prevented:
  "snd wp \<Longrightarrow> snd (key_digit e wp)" "snd wp \<Longrightarrow> snd (key_zero e wp)" "snd wp \<Longrightarrow> snd (key_ctrl e wp)"
  by (cases wp; auto simp: key_digit_def key_zero_def key_ctrl_def Let_def split: option.splits)+

text \<open>C12. A key the handler does not match passes through untouched: when it does not call \<^verbatim>\<open>preventDefault()\<close>, the world is unchanged.\<close>

theorem handle_key_press_pass:
  "\<not> snd (handle_key_press e w) \<Longrightarrow> fst (handle_key_press e w) = w"
proof -
  assume n: "\<not> snd (handle_key_press e w)"
  let ?s1 = "key_switch e w" let ?s2 = "key_digit e ?s1" let ?s3 = "key_zero e ?s2"
  have "\<not> snd ?s3" using n stage_keeps_prevented(3) [of ?s3 e] by (auto simp: handle_key_press_def)
  moreover have "\<not> snd ?s2" using calculation stage_keeps_prevented(2) by blast
  moreover have "\<not> snd ?s1" using calculation stage_keeps_prevented(1) by blast
  ultimately show ?thesis using n by (simp add: handle_key_press_def stage_pass)
qed

lemma singleton_le: "([x] \<le> [y]) = (x \<le> (y::char))"
  by (auto simp: order.order_iff_strict)

lemma single_range: "(''1'' \<le> [c] \<and> [c] \<le> ''9'') = (49 \<le> (of_char c :: nat) \<and> (of_char c :: nat) \<le> 57)"
  by (simp only: singleton_le less_eq_char_def) simp

lemma parse_int_digit:
  assumes "49 \<le> (of_char c :: nat)" "(of_char c :: nat) \<le> 57"
  shows "parse_int [c] = Some (int (of_char c - 48))"
proof -
  have "digit_char (of_char c - 48) = c" using assms(1) by (simp add: digit_char_def)
  moreover have "of_char c - 48 < (10::nat)" using assms by simp
  ultimately have "nat_str (of_char c - 48) = [c]" by (subst nat_str.simps) simp
  then show ?thesis using parse_int_nat_str [of "of_char c - 48"] by simp
qed

lemma above_nine: "k \<noteq> [] \<Longrightarrow> CHR ''9'' < hd k \<Longrightarrow> \<not> k \<le> ''9''"
  by (cases k) (auto simp: less_le)

lemma single_switch_ops: "key e = [c] \<Longrightarrow> switch_ops e t = (if c = CHR '' '' then [Advance] else [])"
  by (simp add: switch_ops_def)

lemma single_digit_ops:
  "key e = [c] \<Longrightarrow>
   digit_ops e t = (if 49 \<le> (of_char c :: nat) \<and> (of_char c :: nat) \<le> 57 then
        (if int (of_char c - 48) \<le> t then [GoTo (int (of_char c - 48))] else []) else [])"
  unfolding digit_ops_def by (simp only: single_range) (simp add: parse_int_digit)

lemma single_rest_ops:
  "key e = [c] \<Longrightarrow> \<not> (ctrl_key e \<and> (c = CHR ''1'' \<or> c = CHR ''2'')) \<Longrightarrow>
   zero_ops e t = (if c = CHR ''0'' \<and> 10 \<le> t then [GoTo 10] else []) \<and> ctrl_ops e t = []"
  by (auto simp: zero_ops_def ctrl_ops_def)

lemma single_spec_key_ops:
  "key e = [c] \<Longrightarrow> \<not> (ctrl_key e \<and> (c = CHR ''1'' \<or> c = CHR ''2'')) \<Longrightarrow>
   spec_key_ops e t =
     (if c = CHR '' '' then [Advance] else if c = CHR ''0'' then (if 10 \<le> t then [GoTo 10] else [])
      else if 49 \<le> (of_char c :: nat) \<and> (of_char c :: nat) \<le> 57 then
        (if int (of_char c - 48) \<le> t then [GoTo (int (of_char c - 48))] else [])
      else [])"
  unfolding spec_key_ops_def Let_def by (auto simp: less_eq_char_def)

lemma key_ops_spec:
  assumes nc: "\<not> (ctrl_key e \<and> (key e = ''1'' \<or> key e = ''2''))"
    and k: "length (key e) = 1 \<or> (key e \<noteq> [] \<and> CHR ''9'' < hd (key e))"
  shows "key_ops e t = spec_key_ops e t"
proof (cases "length (key e) = 1")
  case True
  then obtain c where c: "key e = [c]" by (cases "key e") auto
  with nc have nc': "\<not> (ctrl_key e \<and> (c = CHR ''1'' \<or> c = CHR ''2''))" by auto
  note ops = single_switch_ops [OF c, of t] single_spec_key_ops [OF c nc', of t]
      single_digit_ops [OF c, of t] single_rest_ops [OF c nc', of t]
  show ?thesis
    by (cases "c = CHR '' ''"; cases "c = CHR ''0''") (simp_all add: key_ops_def ops)
next
  case False
  with k have ne: "key e \<noteq> []" and h: "CHR ''9'' < hd (key e)" by auto
  then have "\<not> key e \<le> ''9''" by (rule above_nine)
  moreover have "key e \<noteq> ''0''" "key e \<noteq> ''1''" "key e \<noteq> ''2''" using h by auto
  ultimately show ?thesis using False
    by (simp add: key_ops_def switch_ops_def digit_ops_def zero_ops_def ctrl_ops_def spec_key_ops_def Let_def)
qed

text \<open>C3. For every single-character key and every named key (first character above \<^verbatim>\<open>9\<close>) other than Ctrl+1 and Ctrl+2, the keyboard handler leaves the controller on the slide that the abstract machine of section 4.1 reaches by the operations the input table of section 4.3 assigns to the key.\<close>

theorem handle_key_press_spec:
  assumes "\<not> (ctrl_key e \<and> (key e = ''1'' \<or> key e = ''2''))"
    and "length (key e) = 1 \<or> (key e \<noteq> [] \<and> CHR ''9'' < hd (key e))"
  shows "currentSlide (fst (handle_key_press e w)) =
           fold (nav_spec (totalSlides w)) (spec_key_ops e (totalSlides w)) (currentSlide w)"
  using key_ops_sound [of e w] key_ops_spec [OF assms] by simp

lemma ctrl_one_handler:
  assumes "key e = ''1''" "ctrl_key e" "11 \<le> totalSlides w"
  shows "fst (handle_key_press e w) = call_goto 11 (call_goto 1 w)"
  using assms
  by (simp add: handle_key_press_def key_switch_def key_digit_def key_zero_def key_ctrl_def
      parse_int_def is_js_space_def is_digit_def call_refines)

end
