(* ===== verification/Checkboxes.thy ===== *)
theory Checkboxes
  imports Controller
begin

text \<open>
  The action-item checkboxes of \<^verbatim>\<open>class ClancyInteractiveElements\<close> in
  \<^verbatim>\<open>src/app.js\<close>: \<^verbatim>\<open>enableActionItems\<close> (lines 538--587), which registers a click
  listener on every \<^verbatim>\<open>.action-checkbox\<close> and restores its completion state, the
  listener itself, and \<^verbatim>\<open>showCompletionMessage\<close> (lines 589--618) with the three
  timer callbacks that fade the message in, fade it out and remove it.
  The state of checkbox \<open>i\<close> is persisted under \<^verbatim>\<open>clancy-action-<i>\<close>; when the
  storage throws, the listener falls back to the element's \<^verbatim>\<open>data-completed\<close>
  attribute. The lemmas show that a click toggles the box and its persisted state,
  with and without storage, that two clicks undo each other, and that
  \<^verbatim>\<open>enableActionItems\<close> restores the state a click persisted.
\<close>

definition box_unchecked :: string where
  \<comment> \<open>\<^verbatim>\<open>'\<box>'\<close> (U+25A1) in UTF-8\<close>
  "box_unchecked = [CHR 0xE2, CHR 0x96, CHR 0xA1]"

definition box_checked :: string where
  \<comment> \<open>\<^verbatim>\<open>'\<checkmark>'\<close> (U+2713) in UTF-8\<close>
  "box_checked = [CHR 0xE2, CHR 0x9C, CHR 0x93]"

definition color_success :: string where
  "color_success = ''var(--color-success)''"

definition color_primary :: string where
  "color_primary = ''var(--color-primary)''"

definition action_key :: "nat \<Rightarrow> string" where
  "action_key i = ''clancy-action-'' @ nat_str i"

definition mark_done :: "abox \<Rightarrow> abox" where
  "mark_done b = b\<lparr>box_text := box_checked, box_color := color_success\<rparr>"

definition mark_open :: "abox \<Rightarrow> abox" where
  "mark_open b = b\<lparr>box_text := box_unchecked, box_color := color_primary\<rparr>"

definition restore_box :: "storage \<Rightarrow> nat \<Rightarrow> abox \<Rightarrow> abox" where
  \<comment> \<open>the \<^verbatim>\<open>try\<close>/\<^verbatim>\<open>catch\<close> that restores the completion state\<close>
  "restore_box st i b =
     (if available st then (if items st (action_key i) = Some ''completed'' then mark_done b else b)
      else (if box_completed b then mark_done b else b))"

definition enable_action_items :: "world \<Rightarrow> world" where
  \<comment> \<open>\<^verbatim>\<open>checkboxes.forEach((checkbox, index) => ...)\<close>: listener, then restore\<close>
  "enable_action_items w =
     w\<lparr>boxes := map (\<lambda>(i, b). restore_box (store w) i (b\<lparr>box_listening := True\<rparr>))
                   (enumerate 0 (boxes w))\<rparr>"

definition show_completion_message :: "nat \<Rightarrow> world \<Rightarrow> world" where
  \<comment> \<open>the indicator is appended only inside an \<^verbatim>\<open>.action-item\<close>; fade-in after 50 ms,
      fade-out after 2000 ms\<close>
  "show_completion_message i w =
     (if box_in_item (boxes w ! i) then
        let n = next_node w
        in w\<lparr>messages := messages w @ [(n, i, ''0'')], next_node := Suc n,
             timers := set_timeout (clock w) 2000 (MsgFadeOut n)
                         (set_timeout (clock w) 50 (MsgFadeIn n) (timers w))\<rparr>
      else w)"

definition click_box :: "nat \<Rightarrow> world \<Rightarrow> world" where
  \<comment> \<open>a click on checkbox \<open>i\<close>\<close>
  "click_box i w =
     (if i < length (boxes w) \<and> box_listening (boxes w ! i) then
        let b = boxes w ! i; st = store w in
        if box_text b = box_unchecked then
          show_completion_message i
            (if available st
             then w\<lparr>boxes := (boxes w)[i := mark_done b],
                    store := st\<lparr>items := (items st)(action_key i \<mapsto> ''completed'')\<rparr>\<rparr>
             else w\<lparr>boxes := (boxes w)[i := (mark_done b)\<lparr>box_completed := True\<rparr>]\<rparr>)
        else
          (if available st
           then w\<lparr>boxes := (boxes w)[i := mark_open b],
                  store := st\<lparr>items := (items st)(action_key i := None)\<rparr>\<rparr>
           else w\<lparr>boxes := (boxes w)[i := (mark_open b)\<lparr>box_completed := False\<rparr>]\<rparr>)
      else w)"

definition set_msg_opacity :: "nat \<Rightarrow> string \<Rightarrow> world \<Rightarrow> world" where
  "set_msg_opacity n v w =
     w\<lparr>messages := map (\<lambda>(m, i, v'). if m = n then (m, i, v) else (m, i, v')) (messages w)\<rparr>"

definition msg_fade_in :: "nat \<Rightarrow> world \<Rightarrow> world" where
  "msg_fade_in n w = set_msg_opacity n ''1'' w"

definition msg_fade_out :: "nat \<Rightarrow> world \<Rightarrow> world" where
  \<comment> \<open>fade out, and remove the element 300 ms later\<close>
  "msg_fade_out n w =
     (let w1 = set_msg_opacity n ''0'' w in w1\<lparr>timers := set_timeout (clock w1) 300 (MsgRemove n) (timers w1)\<rparr>)"

definition msg_remove :: "nat \<Rightarrow> world \<Rightarrow> world" where
  \<comment> \<open>\<^verbatim>\<open>if (actionItem.contains(indicator)) actionItem.removeChild(indicator)\<close>\<close>
  "msg_remove n w = w\<lparr>messages := filter (\<lambda>(m, _). m \<noteq> n) (messages w)\<rparr>"

section \<open>Lemmas\<close>

lemma action_key_inj [simp]: "action_key i = action_key j \<longleftrightarrow> i = j"
  by (simp add: action_key_def)

lemma box_texts_differ [simp]: "box_checked \<noteq> box_unchecked"
  by (simp add: box_checked_def box_unchecked_def)

lemma show_completion_message_frame [simp]:
  "boxes (show_completion_message i w) = boxes w" "store (show_completion_message i w) = store w"
  "currentSlide (show_completion_message i w) = currentSlide w"
  "totalSlides (show_completion_message i w) = totalSlides w"
  "page (show_completion_message i w) = page w" "slots (show_completion_message i w) = slots w"
  by (simp_all add: show_completion_message_def Let_def)

lemma click_box_checks:
  assumes "i < length (boxes w)" "box_listening (boxes w ! i)" "box_text (boxes w ! i) = box_unchecked"
  shows "box_text (boxes (click_box i w) ! i) = box_checked \<and>
         (if available (store w) then items (store (click_box i w)) (action_key i) = Some ''completed''
          else box_completed (boxes (click_box i w) ! i) \<and> store (click_box i w) = store w)"
  using assms by (simp add: click_box_def mark_done_def Let_def)

lemma click_box_unchecks:
  assumes "i < length (boxes w)" "box_listening (boxes w ! i)" "box_text (boxes w ! i) \<noteq> box_unchecked"
  shows "box_text (boxes (click_box i w) ! i) = box_unchecked \<and>
         (if available (store w) then items (store (click_box i w)) (action_key i) = None
          else \<not> box_completed (boxes (click_box i w) ! i) \<and> store (click_box i w) = store w)"
  using assms by (simp add: click_box_def mark_open_def Let_def)

lemma click_box_length [simp]: "length (boxes (click_box i w)) = length (boxes w)"
  by (simp add: click_box_def Let_def)

lemma click_box_listening:
  "j < length (boxes w) \<Longrightarrow> box_listening (boxes (click_box i w) ! j) = box_listening (boxes w ! j)"
  by (simp add: click_box_def Let_def mark_done_def mark_open_def nth_list_update)

lemma click_box_available [simp]: "available (store (click_box i w)) = available (store w)"
  by (simp add: click_box_def Let_def)


lemma enable_action_items_nth:
  "i < length (boxes w) \<Longrightarrow>
   boxes (enable_action_items w) ! i = restore_box (store w) i ((boxes w ! i)\<lparr>box_listening := True\<rparr>)"
  by (simp add: enable_action_items_def nth_enumerate_eq)

text \<open>C14. The checkbox scenario of the specification: an unchecked box becomes checked on a click and the completion is persisted; a second click unchecks it and removes the persisted flag. Without storage the box still toggles, through its \<^verbatim>\<open>data-completed\<close> attribute, and the storage is untouched.\<close>

theorem checkbox_toggle:
  assumes i: "i < length (boxes w)" and l: "box_listening (boxes w ! i)"
    and u: "box_text (boxes w ! i) = box_unchecked"
  shows "box_text (boxes (click_box i w) ! i) = box_checked \<and>
         box_text (boxes (click_box i (click_box i w)) ! i) = box_unchecked \<and>
         (if available (store w)
          then items (store (click_box i w)) (action_key i) = Some ''completed'' \<and>
               items (store (click_box i (click_box i w))) (action_key i) = None
          else box_completed (boxes (click_box i w) ! i) \<and>
               \<not> box_completed (boxes (click_box i (click_box i w)) ! i) \<and>
               store (click_box i (click_box i w)) = store w)"
proof -
  note c1 = click_box_checks [OF i l u]
  have i1: "i < length (boxes (click_box i w))" using i by simp
  have l1: "box_listening (boxes (click_box i w) ! i)" using i l by (simp add: click_box_listening)
  have u1: "box_text (boxes (click_box i w) ! i) \<noteq> box_unchecked" using c1 by simp
  note c2 = click_box_unchecks [OF i1 l1 u1]
  show ?thesis using c1 c2 by (cases "available (store w)") simp_all
qed

text \<open>C15. Persistence round trip: the completion a click stores is what \<^verbatim>\<open>enableActionItems\<close> restores when the page is loaded again in the same session.\<close>

theorem checkbox_restore:
  assumes "i < length (boxes w)" "box_listening (boxes w ! i)" "box_text (boxes w ! i) = box_unchecked"
    and "available (store w)" and "i < length (boxes w')" and "store w' = store (click_box i w)"
  shows "box_text (boxes (enable_action_items w') ! i) = box_checked"
  using click_box_checks [OF assms(1-3)] assms(4-6)
  by (simp add: enable_action_items_nth restore_box_def mark_done_def)

end
