(* ===== verification/Tasks.thy ===== *)
theory Tasks
  imports Input Checkboxes
begin

text \<open>
  Start-up and the timer callbacks of \<^verbatim>\<open>src/app.js\<close>.
  \<open>boot\<close> is the \<^verbatim>\<open>DOMContentLoaded\<close> handler (lines 640--674): a new controller
  (constructor and \<^verbatim>\<open>init()\<close>; the document is no longer loading, so the event
  listeners are set up at once), the enhancements, the interactive elements, the
  first view, and \<^verbatim>\<open>window.clancyPresentationController\<close>. \<open>load_script\<close> is the
  evaluation of the script's top level: when the document had already left the
  \<^verbatim>\<open>loading\<close> state it schedules the fallback initialisation (lines 677--688),
  which boots only if no controller is installed. The window and document listeners
  for \<^verbatim>\<open>resize\<close> and \<^verbatim>\<open>visibilitychange\<close> (lines 691--708) redraw the display
  of the installed controller.
  The timer callbacks are the end of a slide animation, the screen-reader
  announcement of \<^verbatim>\<open>enhanceAccessibility\<close> (lines 404--420) and its removal, the
  fallback initialisation and the three callbacks of \<^verbatim>\<open>showCompletionMessage\<close>;
  \<open>run_task\<close> runs one of them. The lemmas bound what a callback adds to the timer
  queue, which is what makes the event loop (theory \<open>EventLoop\<close>) terminate.
\<close>

definition init_interactive :: "world \<Rightarrow> world" where
  \<comment> \<open>\<^verbatim>\<open>new ClancyInteractiveElements()\<close>; the hover listeners of \<^verbatim>\<open>enhanceCards\<close> and
      \<^verbatim>\<open>addBusinessMetrics\<close> only write styles and are not modelled\<close>
  "init_interactive w = enable_action_items w"

definition boot :: "world \<Rightarrow> world" where
  "boot w =
     (let w1 = new_controller w;
          w2 = init_enhancements w1;
          w3 = init_interactive w2;
          w4 = track_slide_view 1 w3
      in w4\<lparr>installed := True\<rparr>)"

definition load_script :: "world \<Rightarrow> world" where
  \<comment> \<open>\<^verbatim>\<open>if (document.readyState === 'complete' || ... 'interactive') setTimeout(..., 100)\<close>\<close>
  "load_script w =
     (if doc_ready w then w\<lparr>timers := set_timeout (clock w) 100 FallbackInit (timers w)\<rparr> else w)"

definition fallback_init :: "world \<Rightarrow> world" where
  "fallback_init w = (if installed w then w else boot w)"

definition refresh_display :: "world \<Rightarrow> world" where
  \<comment> \<open>\<^verbatim>\<open>if (window.clancyPresentationController) ....updateDisplay()\<close>\<close>
  "refresh_display w = (if installed w then update_display_w w else w)"

definition on_resize :: "world \<Rightarrow> world" where
  "on_resize w = refresh_display w"

definition on_visibility :: "bool \<Rightarrow> world \<Rightarrow> world" where
  \<comment> \<open>\<open>hidden\<close> is \<^verbatim>\<open>document.hidden\<close>; the hidden branch only logs\<close>
  "on_visibility hidden w = (if hidden then w else refresh_display w)"

definition announce_text :: "int \<Rightarrow> int \<Rightarrow> string \<Rightarrow> string" where
  "announce_text c t title =
     ''Now showing slide '' @ int_str c @ '' of '' @ int_str t @ '': '' @ title"

definition announce_slide :: "world \<Rightarrow> world" where
  \<comment> \<open>\<^verbatim>\<open>announceSlide\<close>: a live region with the text, removed after 1500 ms; an empty
      title is falsy and announces nothing\<close>
  "announce_slide w =
     (let title = get_current_slide_title (currentSlide w) (page w) in
        if title \<noteq> [] then
          let n = next_node w
          in w\<lparr>live_regions := live_regions w @ [(n, announce_text (currentSlide w) (totalSlides w) title)],
               next_node := Suc n,
               timers := set_timeout (clock w) 1500 (RemoveAnnouncement n) (timers w)\<rparr>
        else w)"

definition remove_announcement :: "nat \<Rightarrow> world \<Rightarrow> world" where
  \<comment> \<open>\<^verbatim>\<open>if (document.body.contains(announcement)) document.body.removeChild(...)\<close>\<close>
  "remove_announcement n w = w\<lparr>live_regions := filter (\<lambda>(m, _). m \<noteq> n) (live_regions w)\<rparr>"

primrec run_task :: "task \<Rightarrow> world \<Rightarrow> world" where
  "run_task (RestoreSlide i) w = w\<lparr>page := animate_end i (page w)\<rparr>"
| "run_task AnnounceSlide w = announce_slide w"
| "run_task (RemoveAnnouncement n) w = remove_announcement n w"
| "run_task FallbackInit w = fallback_init w"
| "run_task (MsgFadeIn n) w = msg_fade_in n w"
| "run_task (MsgFadeOut n) w = msg_fade_out n w"
| "run_task (MsgRemove n) w = msg_remove n w"

primrec task_weight :: "task \<Rightarrow> nat" where
  \<comment> \<open>one for the task, one more for each timer its callback may schedule\<close>
  "task_weight (RestoreSlide i) = 1"
| "task_weight AnnounceSlide = 2"
| "task_weight (RemoveAnnouncement n) = 1"
| "task_weight FallbackInit = 1"
| "task_weight (MsgFadeIn n) = 1"
| "task_weight (MsgFadeOut n) = 2"
| "task_weight (MsgRemove n) = 1"

section \<open>Lemmas\<close>

lemma new_controller_timers [simp]: "timers (new_controller w) = timers w"
  by (simp add: new_controller_def setup_event_listeners_def Let_def update_display_w_def
      update_button_states_w_def)

lemma enable_action_items_frame [simp]:
  "timers (enable_action_items w) = timers w" "store (enable_action_items w) = store w"
  "currentSlide (enable_action_items w) = currentSlide w" "totalSlides (enable_action_items w) = totalSlides w"
  "page (enable_action_items w) = page w" "slots (enable_action_items w) = slots w"
  "clock (enable_action_items w) = clock w" "api_goto (enable_action_items w) = api_goto w"
  "listeners (enable_action_items w) = listeners w" "progress (enable_action_items w) = progress w"
  "installed (enable_action_items w) = installed w"
  by (simp_all add: enable_action_items_def)

lemma boot_timers [simp]: "timers (boot w) = timers w"
  by (simp add: boot_def init_interactive_def Let_def)

lemma run_task_weight:
  "queue_weight task_weight (timers (run_task k w)) < task_weight k + queue_weight task_weight (timers w)"
  by (cases k) (simp_all add: announce_slide_def remove_announcement_def fallback_init_def
      msg_fade_in_def msg_fade_out_def msg_remove_def set_msg_opacity_def set_timeout_def Let_def)


lemma run_task_sorted:
  "sorted (map fst (timers w)) \<Longrightarrow> sorted (map fst (timers (run_task k w)))"
  by (cases k) (simp_all add: announce_slide_def remove_announcement_def fallback_init_def
      msg_fade_in_def msg_fade_out_def msg_remove_def set_msg_opacity_def set_timeout_def Let_def
      sorted_schedule)

end
