(* ===== verification/EventLoop.thy ===== *)
theory EventLoop
  imports Tasks
begin

text \<open>
  The browser's event loop as \<^verbatim>\<open>src/app.js\<close> sees it: one event at a time, each
  run to completion (section 5 of the specification). \<open>run_due t\<close> runs, in queue
  order, every timer due by time \<open>t\<close>, including those that earlier callbacks
  scheduled for a due time not after \<open>t\<close>; it terminates because a callback
  schedules fewer weighted timers than it consumes (\<open>run_task_weight\<close>). \<open>advance\<close>
  lets time pass. \<open>step\<close> dispatches one event of the page: a key press to the
  document's \<^verbatim>\<open>keydown\<close> listeners in registration order, a click on a button,
  an indicator or a checkbox, a resize, a visibility change, a call of the global
  functions \<^verbatim>\<open>window.goToSlide\<close> and \<^verbatim>\<open>window.toggleFullscreen\<close>, or the
  passing of time.
\<close>

function run_due :: "nat \<Rightarrow> world \<Rightarrow> world" where
  "run_due t w =
     (case next_due t (timers w) of
        None \<Rightarrow> w
      | Some ((d, k), r) \<Rightarrow> run_due t (run_task k (w\<lparr>timers := r, clock := max (clock w) d\<rparr>)))"
  by pat_completeness auto
termination
proof (relation "measure (\<lambda>(t, w). queue_weight task_weight (timers w))")
  fix t x2 x r d k and w :: world
  assume "next_due t (timers w) = Some x2" "(x, r) = x2" "(d, k) = x"
  then have "queue_weight task_weight (timers w) = task_weight k + queue_weight task_weight r"
    by (auto dest: queue_weight_next_due)
  then show "((t, run_task k (w\<lparr>timers := r, clock := max (clock w) d\<rparr>)), t, w)
          \<in> measure (\<lambda>(t, w). queue_weight task_weight (timers w))"
    using run_task_weight [of k "w\<lparr>timers := r, clock := max (clock w) d\<rparr>"] by simp
qed simp

definition advance :: "nat \<Rightarrow> world \<Rightarrow> world" where
  \<comment> \<open>\<open>dt\<close> milliseconds pass\<close>
  "advance dt w = (let t = clock w + dt in (run_due t w)\<lparr>clock := t\<rparr>)"

datatype ui_event =
    KeyDown key_event | ClickPrevBtn | ClickNextBtn | ClickIndicator nat | ClickBox nat
  | Wait nat | Resize | Visibility bool | ApiGoTo int | ApiToggleFullscreen

primrec step :: "ui_event \<Rightarrow> world \<Rightarrow> world" where
  "step (KeyDown e) w = fst (dispatch_keydown (listeners w) e w)"
| "step ClickPrevBtn w = click_prev w"
| "step ClickNextBtn w = click_next w"
| "step (ClickIndicator i) w = click_indicator i w"
| "step (ClickBox i) w = click_box i w"
| "step (Wait dt) w = advance dt w"
| "step Resize w = on_resize w"
| "step (Visibility h) w = on_visibility h w"
| "step (ApiGoTo n) w = api_go_to_slide n w"
| "step ApiToggleFullscreen w = toggle_fullscreen w"

definition run_events :: "ui_event list \<Rightarrow> world \<Rightarrow> world" where
  "run_events es w = fold step es w"

section \<open>Lemmas\<close>

declare run_due.simps [simp del]

lemma run_due_None: "next_due t (timers w) = None \<Longrightarrow> run_due t w = w"
  by (simp add: run_due.simps)

lemma run_due_Some:
  "next_due t (timers w) = Some ((d, k), r) \<Longrightarrow>
   run_due t w = run_due t (run_task k (w\<lparr>timers := r, clock := max (clock w) d\<rparr>))"
  by (simp add: run_due.simps)

text \<open>A property that every callback keeps, after its timer has been taken off the
  queue, holds after the loop.\<close>

lemma run_due_preserve:
  assumes step: "\<And>w d k r. P w \<Longrightarrow> next_due t (timers w) = Some ((d, k), r) \<Longrightarrow>
                   P (run_task k (w\<lparr>timers := r, clock := max (clock w) d\<rparr>))"
    and "P w"
  shows "P (run_due t w)"
  using assms
proof (induction t w rule: run_due.induct)
  case (1 t w)
  show ?case
  proof (cases "next_due t (timers w)")
    case None
    then show ?thesis using "1.prems"(2) by (simp add: run_due_None)
  next
    case (Some x)
    then obtain d k r where x: "next_due t (timers w) = Some ((d, k), r)"
      by (cases x) auto
    then show ?thesis
      using "1.IH" [OF x refl refl "1.prems"(1)] "1.prems"(1) [OF "1.prems"(2) x]
      by (simp add: run_due_Some)
  qed
qed

lemma run_due_sorted: "sorted (map fst (timers w)) \<Longrightarrow> sorted (map fst (timers (run_due t w)))"
proof (erule run_due_preserve [rotated])
  fix d k r and w :: world
  assume "sorted (map fst (timers w))" "next_due t (timers w) = Some ((d, k), r)"
  then have "sorted (map fst r)" by (rule next_due_sorted)
  then show "sorted (map fst (timers (run_task k (w\<lparr>timers := r, clock := max (clock w) d\<rparr>))))"
    by (intro run_task_sorted) simp
qed

text \<open>The loop leaves no timer that is due.\<close>

lemma run_due_next_due: "next_due t (timers (run_due t w)) = None"
proof (induction t w rule: run_due.induct)
  case (1 t w)
  show ?case
  proof (cases "next_due t (timers w)")
    case None
    then show ?thesis by (simp add: run_due_None)
  next
    case (Some x)
    then obtain d k r where x: "next_due t (timers w) = Some ((d, k), r)"
      by (cases x) auto
    then show ?thesis using "1.IH" [OF x refl refl] by (simp add: run_due_Some)
  qed
qed

lemma run_due_head:
  "timers w = (d, k) # r \<Longrightarrow> d \<le> t \<Longrightarrow>
   run_due t w = run_due t (run_task k (w\<lparr>timers := r, clock := max (clock w) d\<rparr>))"
  by (rule run_due_Some) (simp add: next_due_def)

lemma run_due_idle: "timers w = [] \<or> t < fst (hd (timers w)) \<Longrightarrow> run_due t w = w"
  by (rule run_due_None) (auto simp: next_due_def split: list.split)

lemma map_fresh_id:
  "n \<notin> fst ` set xs \<Longrightarrow> map (\<lambda>(m, i, v'). if m = n then (m, i, v) else (m, i, v')) xs = xs"
  by (induction xs) auto

lemma filter_fresh_id: "n \<notin> fst ` set xs \<Longrightarrow> filter (\<lambda>(m, _). m \<noteq> n) xs = xs"
  by (induction xs) auto

text \<open>C23. The screen-reader announcement lives 1500 ms: on a quiet timer queue, \<^verbatim>\<open>announceSlide\<close> appends one live region with the text \<^verbatim>\<open>Now showing slide c of t: title\<close>, it is still there 1499 ms later, and after 1500 ms its removal callback has restored the live regions.\<close>

theorem announcement_lifecycle:
  assumes q: "timers w = []" and n: "next_node w \<notin> fst ` set (live_regions w)"
    and t: "get_current_slide_title (currentSlide w) (page w) \<noteq> []"
  shows "live_regions (announce_slide w) =
           live_regions w @ [(next_node w, announce_text (currentSlide w) (totalSlides w)
                                             (get_current_slide_title (currentSlide w) (page w)))] \<and>
         live_regions (advance 1499 (announce_slide w)) = live_regions (announce_slide w) \<and>
         live_regions (advance 1500 (announce_slide w)) = live_regions w"
proof -
  let ?a = "announce_slide w"
  have ta: "timers ?a = [(clock w + 1500, RemoveAnnouncement (next_node w))]" "clock ?a = clock w"
    using q t by (simp_all add: announce_slide_def set_timeout_def Let_def)
  have l: "live_regions ?a = live_regions w @ [(next_node w, announce_text (currentSlide w) (totalSlides w)
                                             (get_current_slide_title (currentSlide w) (page w)))]"
    using t by (simp add: announce_slide_def Let_def)
  have "run_due (clock w + 1499) ?a = ?a"
    by (rule run_due_idle) (simp add: ta)
  moreover have "run_due (clock w + 1500) ?a =
      remove_announcement (next_node w) (?a\<lparr>timers := [], clock := clock w + 1500\<rparr>)"
    by (subst run_due_head [OF ta(1)]) (simp_all add: ta run_due_idle remove_announcement_def)
  ultimately show ?thesis using l n ta
    by (simp add: advance_def remove_announcement_def filter_fresh_id)
qed


text \<open>C24. A checkbox's completion message is appended transparent, fades in after 50 ms, fades out after 2000 ms and is removed 300 ms later: after 2299 ms it is still present, after 2300 ms the messages are as before.\<close>

theorem completion_message_lifecycle:
  assumes q: "timers w = []" and n: "next_node w \<notin> fst ` set (messages w)"
    and b: "box_in_item (boxes w ! i)"
  shows "messages (show_completion_message i w) = messages w @ [(next_node w, i, ''0'')] \<and>
         messages (advance 50 (show_completion_message i w)) = messages w @ [(next_node w, i, ''1'')] \<and>
         messages (advance 2299 (show_completion_message i w)) = messages w @ [(next_node w, i, ''0'')] \<and>
         messages (advance 2300 (show_completion_message i w)) = messages w"
proof -
  let ?n = "next_node w" and ?c = "clock w"
  let ?s = "show_completion_message i w"
  have ts: "timers ?s = [(?c + 50, MsgFadeIn ?n), (?c + 2000, MsgFadeOut ?n)]" "clock ?s = ?c"
    and ms: "messages ?s = messages w @ [(?n, i, ''0'')]"
    using q b by (simp_all add: show_completion_message_def set_timeout_def Let_def)
  let ?s1 = "msg_fade_in ?n (?s\<lparr>timers := [(?c + 2000, MsgFadeOut ?n)], clock := ?c + 50\<rparr>)"
  have s1: "timers ?s1 = [(?c + 2000, MsgFadeOut ?n)]" "clock ?s1 = ?c + 50"
    "messages ?s1 = messages w @ [(?n, i, ''1'')]"
    using ms n by (simp_all add: msg_fade_in_def set_msg_opacity_def map_fresh_id)
  let ?s2 = "msg_fade_out ?n (?s1\<lparr>timers := [], clock := ?c + 2000\<rparr>)"
  have s2: "timers ?s2 = [(?c + 2300, MsgRemove ?n)]" "messages ?s2 = messages w @ [(?n, i, ''0'')]"
    using s1 n by (simp_all add: msg_fade_out_def set_msg_opacity_def set_timeout_def map_fresh_id)
  have r1: "run_due t ?s = run_due t ?s1" if "?c + 50 \<le> t" for t
    using that by (subst run_due_head [OF ts(1)]) (simp_all add: ts)
  have r2: "run_due t ?s1 = run_due t ?s2" if "?c + 2000 \<le> t" for t
    using that by (subst run_due_head [OF s1(1)]) (simp_all add: s1)
  have a: "messages (advance dt ?s) = messages (run_due (?c + dt) ?s)" for dt
    by (simp add: advance_def ts(2) Let_def)
  have e: "run_due (?c + 50) ?s = run_due (?c + 50) ?s1"
    "run_due (?c + 2299) ?s = run_due (?c + 2299) ?s2" "run_due (?c + 2300) ?s = run_due (?c + 2300) ?s2"
    using r1 [of "?c + 50"] r1 [of "?c + 2299"] r2 [of "?c + 2299"] r1 [of "?c + 2300"] r2 [of "?c + 2300"]
    by simp_all
  have "messages (run_due (?c + 50) ?s) = messages w @ [(?n, i, ''1'')]"
    unfolding e by (subst run_due_idle) (simp_all add: s1)
  moreover have "messages (run_due (?c + 2299) ?s) = messages w @ [(?n, i, ''0'')]"
    unfolding e by (subst run_due_idle) (simp_all add: s2)
  moreover have "messages (run_due (?c + 2300) ?s) = messages w"
    unfolding e using n
    by (subst run_due_head [OF s2(1)]) (simp_all add: s2 run_due_idle msg_remove_def filter_fresh_id)
  ultimately show ?thesis using ms by (simp only: a)
qed


lemma title_animate_end: "get_current_slide_title c (animate_end i p) = get_current_slide_title c p"
proof -
  let ?f = "\<lambda>e. (is_slide e, is_active e, heading e)"
  have m: "map ?f (elems (animate_end i p)) = map ?f (elems p)"
    by (cases "i < length (elems p)") (simp_all add: animate_end_def list_eq_iff_nth_eq nth_list_update)
  then have a: "active_slide (elems (animate_end i p)) = active_slide (elems p)"
    unfolding active_slide_def by (rule first_index_cong [where Q = "\<lambda>(s, a, h). s \<and> a"]) simp_all
  have "j < length (elems p) \<Longrightarrow> heading (elems (animate_end i p) ! j) = heading (elems p ! j)" for j
    using arg_cong [OF m, of "\<lambda>xs. xs ! j"] by (simp add: animate_end_def)
  then show ?thesis using a
    by (auto simp: get_current_slide_title_def dest: active_slide_less split: option.split)
qed

lemma go_to_slide_fields:
  "live_regions (go_to_slide n w) = live_regions w" "next_node (go_to_slide n w) = next_node w"
  "clock (go_to_slide n w) = clock w"
  by (simp_all add: go_to_slide_def Let_def track_slide_view_def animate_slide_transition_def
      update_display_w_def update_button_states_w_def split: prod.split option.split)

lemma go_to_slide_timers:
  "timers w = [] \<Longrightarrow> timers (go_to_slide n w) = [] \<or> (\<exists>i. timers (go_to_slide n w) = [(clock w + 50, RestoreSlide i)])"
  by (auto simp: go_to_slide_def Let_def track_slide_view_def animate_slide_transition_def set_timeout_def
      update_display_w_def update_button_states_w_def split: prod.split option.split)

text \<open>C13. With the enhancements installed and no pending timer, an accepted \<^verbatim>\<open>goToSlide(n)\<close> is announced: 100 ms later, after the animation's restore callback has run, one live region announces slide \<open>n\<close> with the title of the page it shows.\<close>

theorem goto_announced:
  assumes s: "slots w = enhanced_slots" and q: "timers w = []"
    and g: "1 \<le> n" "n \<le> totalSlides w" "n \<noteq> currentSlide w"
    and t: "get_current_slide_title n (page (go_to_slide n w)) \<noteq> []"
  shows "live_regions (advance 100 (call_goto n w)) =
           live_regions w @ [(next_node w, announce_text n (totalSlides w) (get_current_slide_title n (page (go_to_slide n w))))]"
proof -
  let ?g = "go_to_slide n w" and ?c = "clock w"
  let ?w1 = "announce_later (update_progress ?g)"
  have w1: "call_goto n w = ?w1" using s by (simp add: enhanced_calls)
  have cg: "currentSlide ?g = n" "totalSlides ?g = totalSlides w"
    using g base_op_refines [of "GoTo n" w] by simp_all
  let ?txt = "announce_text n (totalSlides w) (get_current_slide_title n (page ?g))"
  have ann: "live_regions (announce_slide v) = live_regions w @ [(next_node w, ?txt)] \<and>
             timers (announce_slide v) = [(?c + 1600, RemoveAnnouncement (next_node w))]"
    if "currentSlide v = n" "totalSlides v = totalSlides w" "live_regions v = live_regions w"
       "next_node v = next_node w" "get_current_slide_title n (page v) = get_current_slide_title n (page ?g)"
       "timers v = []" "clock v = ?c + 100" for v
    using that t by (simp add: announce_slide_def set_timeout_def Let_def)
  from go_to_slide_timers [OF q, of n] show ?thesis
  proof
    assume e: "timers ?g = []"
    then have tw: "timers ?w1 = [(?c + 100, AnnounceSlide)]"
      by (simp add: announce_later_def update_progress_def set_timeout_def go_to_slide_fields)
    have "run_due (?c + 100) ?w1 = run_due (?c + 100) (announce_slide (?w1\<lparr>timers := [], clock := ?c + 100\<rparr>))"
      by (subst run_due_head [OF tw]) (simp_all add: announce_later_def update_progress_def go_to_slide_fields)
    also have "\<dots> = announce_slide (?w1\<lparr>timers := [], clock := ?c + 100\<rparr>)"
      using ann [of "?w1\<lparr>timers := [], clock := ?c + 100\<rparr>"] cg
      by (intro run_due_idle) (simp add: announce_later_def update_progress_def go_to_slide_fields)
    finally show ?thesis using w1 ann [of "?w1\<lparr>timers := [], clock := ?c + 100\<rparr>"] cg
      by (simp add: advance_def Let_def announce_later_def update_progress_def go_to_slide_fields)
  next
    assume "\<exists>i. timers ?g = [(?c + 50, RestoreSlide i)]"
    then obtain i where e: "timers ?g = [(?c + 50, RestoreSlide i)]" by blast
    then have tw: "timers ?w1 = [(?c + 50, RestoreSlide i), (?c + 100, AnnounceSlide)]"
      by (simp add: announce_later_def update_progress_def set_timeout_def go_to_slide_fields)
    let ?w2 = "(?w1\<lparr>timers := [(?c + 100, AnnounceSlide)], clock := ?c + 50\<rparr>)\<lparr>page := animate_end i (page ?w1)\<rparr>"
    have tw2: "timers ?w2 = [(?c + 100, AnnounceSlide)]" by simp
    have "run_due (?c + 100) ?w1 = run_due (?c + 100) ?w2"
      by (subst run_due_head [OF tw]) (simp_all add: announce_later_def update_progress_def go_to_slide_fields)
    also have "\<dots> = run_due (?c + 100) (announce_slide (?w2\<lparr>timers := [], clock := ?c + 100\<rparr>))"
      by (subst run_due_head [OF tw2]) simp_all
    also have "\<dots> = announce_slide (?w2\<lparr>timers := [], clock := ?c + 100\<rparr>)"
      using ann [of "?w2\<lparr>timers := [], clock := ?c + 100\<rparr>"] cg
      by (intro run_due_idle) (simp add: announce_later_def update_progress_def go_to_slide_fields title_animate_end)
    finally show ?thesis using w1 ann [of "?w2\<lparr>timers := [], clock := ?c + 100\<rparr>"] cg
      by (simp add: advance_def Let_def announce_later_def update_progress_def go_to_slide_fields title_animate_end)
  qed
qed

end
