(* ===== verification/System.thy ===== *)
theory System
  imports EventLoop
begin

text \<open>
  The whole program as a transition system. A world is reachable when it arises from
  a world before the script ran (\<open>fresh\<close>) by the \<^verbatim>\<open>DOMContentLoaded\<close>
  initialisation or by the fallback timer, followed by any sequence of page events
  (\<open>step\<close>, theory \<open>EventLoop\<close>). The system invariant \<open>sys_inv\<close> has three parts:
  \<open>core_inv\<close>, the controller's own state (slide in range, deck of 12, page and
  buttons synchronised with the slide, timer queue sorted, view history bounded);
  \<open>wired\<close>, the installed wrappers, the \<^verbatim>\<open>window.goToSlide\<close> binding and the
  listeners after start-up; and \<open>progress_ok\<close>, the progress bar showing the
  current slide. The lemmas prove it of the start-up and of every event, each
  navigation method, wrapper hook, key handler stage, click and timer callback in
  turn, and derive the properties of reachable worlds.
\<close>

definition core_inv :: "world \<Rightarrow> bool" where
  "core_inv w \<longleftrightarrow>
     nav_inv w \<and> totalSlides w = 12 \<and> synced (currentSlide w) (page w) \<and>
     buttons_synced (currentSlide w) (totalSlides w) (page w) \<and>
     sorted (map fst (timers w)) \<and> length (stored_views (store w)) \<le> max_views \<and>
     deck_ok (elems (page w))"

definition wired :: "world \<Rightarrow> bool" where
  "wired w \<longleftrightarrow>
     installed w \<and> slots w = enhanced_slots \<and> api_goto w = Some (install [UpdateProgress] Base) \<and>
     listeners w = [ClickNav, KeyNav, KeyHelp]"

definition progress_ok :: "world \<Rightarrow> bool" where
  "progress_ok w \<longleftrightarrow> progress w = Some (of_int (currentSlide w) / of_int (totalSlides w) * 100)"

definition sys_inv :: "world \<Rightarrow> bool" where
  "sys_inv w \<longleftrightarrow> core_inv w \<and> wired w \<and> progress_ok w"

definition fresh :: "world \<Rightarrow> bool" where
  \<comment> \<open>the world before the script runs: no listener, no timer, no controller\<close>
  "fresh w \<longleftrightarrow> listeners w = [] \<and> timers w = [] \<and> \<not> installed w \<and>
     length (stored_views (store w)) \<le> max_views \<and> deck_ok (elems (page w))"

inductive reachable :: "world \<Rightarrow> bool" where
  dom_loaded: "fresh w \<Longrightarrow> reachable (boot (load_script w))"
| fallback: "fresh w \<Longrightarrow> doc_ready w \<Longrightarrow> reachable (advance 100 (load_script w))"
| step: "reachable w \<Longrightarrow> reachable (step ev w)"

section \<open>Lemmas\<close>

lemma animate_page:
  "page (animate_slide_transition d w) = fst (animate_start d (page w))"
  "sorted (map fst (timers w)) \<Longrightarrow> sorted (map fst (timers (animate_slide_transition d w)))"
  by (simp_all add: animate_slide_transition_def set_timeout_def sorted_schedule split: prod.split option.split)

lemma nav_tail_core:
  assumes "1 \<le> n" "n \<le> totalSlides w" "totalSlides w = 12" "sorted (map fst (timers w))"
    "length (stored_views (store w)) \<le> max_views" "deck_ok (elems (page w))"
  shows "core_inv (track_slide_view m (animate_slide_transition d
           (update_button_states_w (update_display_w (w\<lparr>currentSlide := n\<rparr>)))))"
proof -
  let ?p = "update_button_states n (totalSlides w) (update_display n (page w))"
  have "synced n ?p" by (intro synced_update_button_states synced_update_display)
  moreover have "buttons_synced n (totalSlides w) ?p" by (rule buttons_synced_update)
  ultimately have "synced n (fst (animate_start d ?p))" "buttons_synced n (totalSlides w) (fst (animate_start d ?p))"
    by (simp_all add: synced_animate_start buttons_synced_animate)
  then show ?thesis using assms
    by (simp add: core_inv_def nav_inv_def animate_page track_slide_view_bound
        update_display_w_def update_button_states_w_def)
qed

lemma base_op_core:
  assumes c: "core_inv w" shows "core_inv (base_op op w)"
proof -
  from c have f: "1 \<le> currentSlide w" "currentSlide w \<le> totalSlides w" "totalSlides w = 12"
    "sorted (map fst (timers w))" "length (stored_views (store w)) \<le> max_views"
    "deck_ok (elems (page w))"
    by (simp_all add: core_inv_def nav_inv_def)
  show ?thesis
  proof (cases op)
    case Advance
    then show ?thesis using c f nav_tail_core [of "currentSlide w + 1" w]
      by (simp add: next_slide_def Let_def)
  next
    case Retreat
    then show ?thesis using c f nav_tail_core [of "currentSlide w - 1" w]
      by (simp add: previous_slide_def Let_def)
  next
    case (GoTo n)
    then show ?thesis using c f nav_tail_core [of n w]
      by (simp add: go_to_slide_def Let_def)
  qed
qed


lemma sys_inv_frame:
  assumes "sys_inv w" "currentSlide w' = currentSlide w" "totalSlides w' = totalSlides w"
    "page w' = page w" "views_item (store w') = views_item (store w)"
    "sorted (map fst (timers w)) \<Longrightarrow> sorted (map fst (timers w'))"
    "installed w' = installed w" "slots w' = slots w" "api_goto w' = api_goto w"
    "listeners w' = listeners w" "progress w' = progress w"
  shows "sys_inv w'"
  using assms by (clarsimp simp: sys_inv_def core_inv_def wired_def progress_ok_def nav_inv_def stored_views_def)

lemma hooks_inv:
  "core_inv w \<Longrightarrow> core_inv (update_progress w)" "core_inv w \<Longrightarrow> core_inv (announce_later w)"
  "wired w \<Longrightarrow> wired (update_progress w)" "wired w \<Longrightarrow> wired (announce_later w)"
  "progress_ok (update_progress w)" "progress_ok w \<Longrightarrow> progress_ok (announce_later w)"
  by (clarsimp simp: core_inv_def wired_def progress_ok_def nav_inv_def update_progress_def
      announce_later_def set_timeout_def sorted_schedule)+

lemma methods_inv:
  assumes "core_inv w" "wired w"
  shows "core_inv (go_to_slide n w)" "core_inv (next_slide w)" "core_inv (previous_slide w)"
    "wired (go_to_slide n w)" "wired (next_slide w)" "wired (previous_slide w)"
  using base_op_core [OF assms(1), of "GoTo n"] base_op_core [OF assms(1), of Advance]
    base_op_core [OF assms(1), of Retreat] assms(2)
  by (simp_all add: wired_def)

lemma call_sys_inv:
  assumes "sys_inv w"
  shows "sys_inv (call_goto n w)" "sys_inv (call_next w)" "sys_inv (call_prev w)"
proof -
  from assms have c: "core_inv w" and wi: "wired w" and s: "slots w = enhanced_slots"
    by (simp_all add: sys_inv_def wired_def)
  show "sys_inv (call_goto n w)" "sys_inv (call_next w)" "sys_inv (call_prev w)"
    using methods_inv [OF c wi] by (simp_all add: enhanced_calls [OF s] sys_inv_def hooks_inv)
qed

lemma api_sys_inv: "sys_inv w \<Longrightarrow> sys_inv (api_go_to_slide n w)"
proof -
  assume i: "sys_inv w"
  then have "api_go_to_slide n w = update_progress (go_to_slide n w)"
    by (simp add: sys_inv_def wired_def api_go_to_slide_def install_def)
  moreover have "core_inv w" "wired w" using i by (simp_all add: sys_inv_def)
  ultimately show ?thesis using methods_inv(1,4) by (simp add: sys_inv_def hooks_inv)
qed

lemma toggle_fullscreen_sys_inv: "sys_inv w \<Longrightarrow> sys_inv (toggle_fullscreen w)"
  by (erule sys_inv_frame) (simp_all add: toggle_fullscreen_def sys_inv_def core_inv_def)

lemma key_stages_sys_inv:
  "sys_inv w \<Longrightarrow> sys_inv (fst (key_switch e w))"
  "sys_inv (fst wp) \<Longrightarrow> sys_inv (fst (key_digit e wp))"
  "sys_inv (fst wp) \<Longrightarrow> sys_inv (fst (key_zero e wp))"
  "sys_inv (fst wp) \<Longrightarrow> sys_inv (fst (key_ctrl e wp))"
  by (cases wp; simp add: key_switch_def key_digit_def key_zero_def key_ctrl_def Let_def call_sys_inv
      toggle_fullscreen_sys_inv split: option.split)+

lemma handle_key_press_sys_inv: "sys_inv w \<Longrightarrow> sys_inv (fst (handle_key_press e w))"
  unfolding handle_key_press_def by (intro key_stages_sys_inv)

lemma help_sys_inv: "sys_inv w \<Longrightarrow> sys_inv (fst (handle_help_key e w))"
  by (erule sys_inv_frame) (simp_all add: handle_help_key_def show_keyboard_shortcuts_def sys_inv_def core_inv_def)

lemma dispatch_wired:
  "fst (dispatch_keydown [ClickNav, KeyNav, KeyHelp] e w) = fst (handle_help_key e (fst (handle_key_press e w)))"
  by (simp add: split_def Let_def)

lemma run_clicks_wired: "run_clicks [ClickNav, KeyNav, KeyHelp] f w = f w"
  by (simp add: run_clicks_def)

lemma clicks_sys_inv:
  assumes "sys_inv w"
  shows "sys_inv (click_prev w)" "sys_inv (click_next w)" "sys_inv (click_indicator i w)"
  using assms call_sys_inv [OF assms]
  by (simp_all add: click_prev_def click_next_def click_indicator_def sys_inv_def wired_def run_clicks_wired
      split: option.split)


lemma click_box_sys_inv: "sys_inv w \<Longrightarrow> sys_inv (click_box i w)"
  by (erule sys_inv_frame)
     (simp_all add: click_box_def show_completion_message_def set_timeout_def Let_def sorted_schedule)

lemma run_task_sys_inv: "sys_inv w \<Longrightarrow> sys_inv (run_task k w)"
proof (cases k)
  case (RestoreSlide i)
  assume "sys_inv w"
  then show ?thesis using RestoreSlide
    by (clarsimp simp: sys_inv_def core_inv_def wired_def progress_ok_def nav_inv_def synced_animate_end
        buttons_synced_animate)
next
  case FallbackInit
  assume "sys_inv w"
  then show ?thesis using FallbackInit by (simp add: fallback_init_def sys_inv_def wired_def)
qed (erule sys_inv_frame; simp add: announce_slide_def remove_announcement_def msg_fade_in_def
       msg_fade_out_def msg_remove_def set_msg_opacity_def set_timeout_def Let_def sorted_schedule)+

lemma run_due_sys_inv: "sys_inv w \<Longrightarrow> sys_inv (run_due t w)"
proof (erule run_due_preserve [rotated])
  fix d k r and w :: world
  assume i: "sys_inv w" and n: "next_due t (timers w) = Some ((d, k), r)"
  have "sys_inv (w\<lparr>timers := r, clock := max (clock w) d\<rparr>)"
    by (rule sys_inv_frame [OF i]) (simp_all add: next_due_sorted [OF _ n])
  then show "sys_inv (run_task k (w\<lparr>timers := r, clock := max (clock w) d\<rparr>))"
    by (rule run_task_sys_inv)
qed

lemma advance_sys_inv: "sys_inv w \<Longrightarrow> sys_inv (advance dt w)"
  unfolding advance_def Let_def
  by (drule run_due_sys_inv [of _ "clock w + dt"]) (erule sys_inv_frame; simp)

text \<open>On a world that satisfies the invariant, the redraw of the resize and
  visibility handlers changes nothing.\<close>

lemma refresh_display_id: "sys_inv w \<Longrightarrow> refresh_display w = w"
  by (simp add: refresh_display_def sys_inv_def core_inv_def wired_def synced_def update_display_w_def)

lemma step_sys_inv: "sys_inv w \<Longrightarrow> sys_inv (step ev w)"
proof (cases ev)
  case (KeyDown e)
  assume i: "sys_inv w"
  then have "listeners w = [ClickNav, KeyNav, KeyHelp]" by (simp add: sys_inv_def wired_def)
  then have "step ev w = fst (handle_help_key e (fst (handle_key_press e w)))"
    using KeyDown by (simp only: step.simps dispatch_wired)
  then show ?thesis using i by (simp add: help_sys_inv handle_key_press_sys_inv)
qed (simp_all add: clicks_sys_inv click_box_sys_inv advance_sys_inv on_resize_def on_visibility_def
       refresh_display_id api_sys_inv toggle_fullscreen_sys_inv)


lemma new_controller_facts:
  "currentSlide (new_controller w) = 1" "totalSlides (new_controller w) = 12"
  "slots (new_controller w) = \<lparr>goto_slot = Base, next_slot = Base, prev_slot = Base\<rparr>"
  "listeners (new_controller w) = listeners w @ [ClickNav, KeyNav]"
  "synced 1 (page (new_controller w))" "buttons_synced 1 12 (page (new_controller w))"
  "store (new_controller w) = store w" "installed (new_controller w) = installed w"
  "deck_ok (elems (page (new_controller w))) = deck_ok (elems (page w))"
  by (simp_all add: new_controller_def setup_event_listeners_def update_display_w_def
      update_button_states_w_def Let_def synced_total_text synced_update_button_states
      synced_update_display buttons_synced_update)

lemma boot_sys_inv:
  assumes "listeners w = []" "sorted (map fst (timers w))" "length (stored_views (store w)) \<le> max_views"
    "deck_ok (elems (page w))"
  shows "sys_inv (boot w)"
proof -
  let ?w2 = "init_enhancements (new_controller w)"
  have e: "slots ?w2 = enhanced_slots" "api_goto ?w2 = Some (install [UpdateProgress] Base)"
    "listeners ?w2 = [ClickNav, KeyNav, KeyHelp]"
    using init_enhancements_fields [of "new_controller w"] assms(1) by (simp_all add: new_controller_facts)
  have p: "progress ?w2 = Some (of_int 1 / of_int 12 * 100)"
    by (simp add: init_enhancements_def add_presentation_utilities_def enhance_accessibility_def
        add_business_features_def add_progress_bar_def update_progress_def new_controller_facts Let_def)
  show ?thesis using e p assms
    by (simp add: boot_def init_interactive_def Let_def sys_inv_def core_inv_def wired_def progress_ok_def
        nav_inv_def new_controller_facts track_slide_view_bound)
qed


text \<open>When the document was ready before the script ran, the fallback timer boots the
  presentation once 100 ms have passed.\<close>

lemma fallback_boot:
  assumes "fresh w" "doc_ready w"
  shows "advance 100 (load_script w) =
         (boot (w\<lparr>timers := [], clock := clock w + 100\<rparr>))\<lparr>clock := clock w + 100\<rparr>"
proof -
  let ?t = "clock w + 100"
  let ?w1 = "w\<lparr>timers := [], clock := ?t\<rparr>"
  have t: "timers (load_script w) = [(?t, FallbackInit)]"
    using assms by (simp add: fresh_def load_script_def set_timeout_def)
  have "run_due ?t (load_script w) =
        run_due ?t (run_task FallbackInit ((load_script w)\<lparr>timers := [], clock := max (clock (load_script w)) ?t\<rparr>))"
    using t by (intro run_due_Some) (simp add: next_due_def)
  also have "(load_script w)\<lparr>timers := [], clock := max (clock (load_script w)) ?t\<rparr> = ?w1"
    using assms by (simp add: load_script_def)
  also have "run_task FallbackInit ?w1 = boot ?w1"
    using assms by (simp add: fallback_init_def fresh_def)
  also have "run_due ?t (boot ?w1) = boot ?w1"
    by (rule run_due_None) (simp add: next_due_def)
  finally show ?thesis using assms by (simp add: advance_def load_script_def Let_def)
qed

lemma reachable_inv: "reachable w \<Longrightarrow> sys_inv w"
proof (induction rule: reachable.induct)
  case (dom_loaded w)
  then show ?case
    by (intro boot_sys_inv) (simp_all add: fresh_def load_script_def set_timeout_def)
next
  case (fallback w)
  have "sys_inv (boot (w\<lparr>timers := [], clock := clock w + 100\<rparr>))"
    using fallback.hyps(1) by (intro boot_sys_inv) (simp_all add: fresh_def)
  then show ?case unfolding fallback_boot [OF fallback.hyps]
    by (rule sys_inv_frame) simp_all
next
  case (step w ev)
  from step.IH show ?case by (rule step_sys_inv)
qed


section \<open>Properties of reachable worlds\<close>

text \<open>C1. In every world the program can reach, the slide index lies in \<open>1..totalSlides\<close> with a deck of 12, the page and the two buttons are exactly what \<^verbatim>\<open>updateDisplay\<close> and \<^verbatim>\<open>updateButtonStates\<close> would draw for the current slide, the timer queue is ordered by due time, the stored view history holds at most 50 views, and the progress bar shows the current slide's percentage.\<close>

theorem reachable_invariant:
  "reachable w \<Longrightarrow>
     1 \<le> currentSlide w \<and> currentSlide w \<le> totalSlides w \<and> totalSlides w = 12 \<and>
     update_display (currentSlide w) (page w) = page w \<and>
     update_button_states (currentSlide w) (totalSlides w) (page w) = page w \<and>
     sorted (map fst (timers w)) \<and> length (stored_views (store w)) \<le> max_views \<and>
     progress w = Some (of_int (currentSlide w) / of_int (totalSlides w) * 100)"
  using reachable_inv [of w]
  by (clarsimp simp: sys_inv_def core_inv_def nav_inv_def synced_def buttons_synced_def progress_ok_def)

text \<open>C10. The redraw on a window resize or on the tab becoming visible again never changes a reachable world: the display does not drift.\<close>

theorem redraw_no_drift: "reachable w \<Longrightarrow> on_resize w = w \<and> on_visibility h w = w"
  using reachable_inv [of w] refresh_display_id by (simp add: on_resize_def on_visibility_def)

text \<open>C11. In a reachable world each navigation button, when present, is disabled exactly at its boundary and labelled for it.\<close>

theorem reachable_buttons:
  assumes "reachable w"
  shows "(prev_btn (page w) = Some b \<longrightarrow>
            disabled b = (currentSlide w = 1) \<and> label b = (if currentSlide w = 1 then ''First Slide'' else prev_label)) \<and>
         (next_btn (page w) = Some b' \<longrightarrow>
            disabled b' = (currentSlide w = totalSlides w) \<and>
            label b' = (if currentSlide w = totalSlides w then ''Final Slide'' else next_label))"
proof -
  have "buttons_synced (currentSlide w) (totalSlides w) (page w)"
    using reachable_inv [OF assms] by (clarsimp simp: sys_inv_def core_inv_def)
  then have p: "prev_btn (update_button_states (currentSlide w) (totalSlides w) (page w)) = prev_btn (page w)"
    and n: "next_btn (update_button_states (currentSlide w) (totalSlides w) (page w)) = next_btn (page w)"
    by (simp_all add: buttons_synced_def)
  show ?thesis using p n by (auto simp: update_button_states_def)
qed

text \<open>C21. Once the presentation has started, the fallback initialisation is a no-op: the controller is never created a second time by the fallback timer.\<close>

theorem fallback_after_boot: "reachable w \<Longrightarrow> run_task FallbackInit w = w"
  using reachable_inv [of w] by (simp add: fallback_init_def sys_inv_def wired_def)

text \<open>C22. In a reachable world, \<^verbatim>\<open>getProgress()\<close> reports a rounded percentage between 8 (slide 1 of 12) and 100.\<close>

theorem progress_bounds:
  assumes "reachable w"
  shows "8 \<le> fst (snd (snd (get_progress w))) \<and> fst (snd (snd (get_progress w))) \<le> 100"
proof -
  have c: "1 \<le> currentSlide w" "currentSlide w \<le> 12" "totalSlides w = 12"
    using reachable_inv [OF assms] by (auto simp: sys_inv_def core_inv_def nav_inv_def)
  then have "(1::rat) \<le> of_int (currentSlide w)" "of_int (currentSlide w) \<le> (12::rat)" by simp_all
  then have "8 \<le> of_int (currentSlide w) / 12 * 100 + (1/2::rat)"
    "of_int (currentSlide w) / 12 * 100 + (1/2::rat) < 101" by simp_all
  then show ?thesis using c by (simp add: get_progress_def js_round_def le_floor_iff floor_le_iff)
qed

text \<open>C8. In every reachable world exactly one slide is active, the one whose \<^verbatim>\<open>data-slide\<close> is the current slide number, and the indicators are active exactly at the current slide's position.\<close>

theorem reachable_one_active:
  assumes "reachable w"
  shows "(\<exists>i. {j. j < length (elems (page w)) \<and> is_slide (elems (page w) ! j) \<and> is_active (elems (page w) ! j)} = {i} \<and>
              data_slide (elems (page w) ! i) = Some (int_str (currentSlide w))) \<and>
         map is_active (filter is_indicator (elems (page w))) = map (\<lambda>k. int k + 1 = currentSlide w) [0..<12]"
proof -
  have i: "deck_ok (elems (page w))" "synced (currentSlide w) (page w)" "1 \<le> currentSlide w" "currentSlide w \<le> 12"
    using reachable_inv [OF assms] by (auto simp: sys_inv_def core_inv_def nav_inv_def)
  show ?thesis using synced_one_active [OF i] synced_indicators [OF i(1,2)] by blast
qed

end
