(* ===== verification/Spec2Isabelle.thy ===== *)
theory Spec2Isabelle
  imports System
begin

text \<open>
  \<^bold>\<open>A verification model of the slide-deck presenter \<^verbatim>\<open>src/app.js\<close>.\<close>

  \<^bold>\<open>The program.\<close> One script, three classes and a start-up block. The
  controller \<^verbatim>\<open>ClancyPresentationController\<close> holds the current slide and the
  deck size and has the navigation methods \<^verbatim>\<open>nextSlide\<close>, \<^verbatim>\<open>previousSlide\<close> and
  \<^verbatim>\<open>goToSlide\<close>, each of which moves the slide, re-synchronises the page
  (\<^verbatim>\<open>updateDisplay\<close>, \<^verbatim>\<open>updateButtonStates\<close>), starts a short animation and
  records a view in the session storage (\<^verbatim>\<open>trackSlideView\<close>); its keyboard handler
  \<^verbatim>\<open>handleKeyPress\<close> and the click listeners call the navigation methods through
  the object, so they see whatever the enhancements installed. The enhancement class
  \<^verbatim>\<open>ClancyPresentationEnhancements\<close> replaces the three navigation methods by
  wrappers (progress bar; deferred screen-reader announcement on \<^verbatim>\<open>goToSlide\<close>
  only), exports \<^verbatim>\<open>window.goToSlide\<close> between the two wrappings, and adds a help
  key. \<^verbatim>\<open>ClancyInteractiveElements\<close> adds hover styles and persistent action-item
  checkboxes. The \<^verbatim>\<open>DOMContentLoaded\<close> handler, or a fallback timer, starts it all;
  resize and visibility listeners redraw the display. Deferred work runs from the
  browser's timer queue.

  \<^bold>\<open>Theories.\<close>
  \<^item> \<open>Prelude\<close>: the JavaScript built-ins the code relies on (\<^verbatim>\<open>querySelector\<close>'s
    first match, array indexing with \<^verbatim>\<open>undefined\<close>, \<^verbatim>\<open>String(n)\<close> and
    \<^verbatim>\<open>parseInt\<close> with their round trip, the trimming \<^verbatim>\<open>splice\<close>).
  \<^item> \<open>Dom\<close>: the Display Synchronizer (\<^verbatim>\<open>updateDisplay\<close>, \<^verbatim>\<open>updateButtonStates\<close>,
    \<^verbatim>\<open>updatePageTitle\<close>, \<^verbatim>\<open>getCurrentSlideTitle\<close>, the style writes of
    \<^verbatim>\<open>animateSlideTransition\<close>) on a page given as elements in document order;
    element-wise characterisation of \<^verbatim>\<open>updateDisplay\<close>, idempotence, one active
    slide and the indicator pattern on a well-formed deck (\<open>deck_ok\<close>).
  \<^item> \<open>Timers\<close>: the browser's \<^verbatim>\<open>setTimeout\<close> queue (not code of the program),
    ordered by due time, and the weight of pending callbacks.
  \<^item> \<open>Storage\<close>: \<^verbatim>\<open>sessionStorage\<close> with its failure mode; \<^verbatim>\<open>getSessionId\<close> and the
    50-entry view history of \<^verbatim>\<open>trackSlideView\<close>.
  \<^item> \<open>Controller\<close>: the world (controller fields, page, storage, timers, method
    slots, listeners, enhancement state, checkboxes) and the controller's methods, one
    function each with every call it makes; the abstract machine \<open>nav_spec\<close> of
    section 4.1 and its refinement by the three navigation methods.
  \<^item> \<open>Enhancements\<close>: method wrapping as a chain \<open>meth\<close> of hooks over the prototype
    method (\<open>run_meth\<close>: the captured method first, then the hook), the progress and
    announcement hooks, \<^verbatim>\<open>init()\<close> and \<^verbatim>\<open>window.goToSlide\<close>; what \<^verbatim>\<open>init()\<close>
    installs, once and twice.
  \<^item> \<open>Input\<close>: \<^verbatim>\<open>handleKeyPress\<close> as its four sequential tests, the help key, the
    click listeners; refinement against the table of section 4.3.
  \<^item> \<open>Checkboxes\<close>: \<^verbatim>\<open>enableActionItems\<close>, the checkbox listener with its
    \<^verbatim>\<open>data-completed\<close> fallback, \<^verbatim>\<open>showCompletionMessage\<close> and its callbacks.
  \<^item> \<open>Tasks\<close>: start-up (\<open>boot\<close>, \<open>load_script\<close>, \<open>fallback_init\<close>), the resize and
    visibility handlers, the announcement callbacks, and \<open>run_task\<close>, which runs the
    callback a timer names.
  \<^item> \<open>EventLoop\<close>: \<open>run_due\<close> runs due callbacks in queue order; it is a \<open>function\<close>
    whose termination measure is the total weight of the queue (a callback that
    schedules another timer weighs 2, every other callback 1, and no callback
    schedules more than its weight less one). \<open>step\<close> dispatches one page event. The
    lifecycle theorems follow the announcement and the completion message through the
    loop, at the exact delays of the code (1499 against 1500 ms, 2299 against
    2300 ms).
  \<^item> \<open>System\<close>: reachable worlds (start-up, then any sequence of events), the system
    invariant proved by rule induction, and its consequences.

  \<^bold>\<open>Choices and limits.\<close> Slide numbers are \<open>int\<close>: the keyboard, buttons and
  indicators only produce integers, but \<^verbatim>\<open>window.goToSlide\<close> can be called from
  the console with any value, and the model covers integer arguments only (a string
  or fractional argument passes the guard of line 94; see the findings). Storage is
  either usable or throwing on every access; a \<^verbatim>\<open>setItem\<close> that alone throws (quota)
  is not modelled. The progress percentage is \<open>rat\<close>, so floating-point rounding is
  not modelled. \<^verbatim>\<open>requestFullscreen\<close>/\<^verbatim>\<open>exitFullscreen\<close> are taken to succeed at
  once when present. Strings are byte strings; the keys and labels the code compares
  are ASCII, the arrow, box and check-mark characters are written in UTF-8.
  \<^verbatim>\<open>JSON.stringify\<close>/\<^verbatim>\<open>JSON.parse\<close> of the view history are taken as a lossless
  pair. The deck's HTML is a parameter: the page is any element list, and the
  system-level results assume the well-formed deck of \<open>deck_ok\<close> at start-up. Only
  start-ups that create one controller are modelled (the fallback timer after the
  \<^verbatim>\<open>DOMContentLoaded\<close> start, or instead of it).

  \<^bold>\<open>Not modelled.\<close> Console output, \<^verbatim>\<open>alert\<close> text (an alert is counted), the
  export to a JSON file (\<^verbatim>\<open>Blob\<close>, download link), \<^verbatim>\<open>window.print\<close>, the hover
  styles of cards and metrics, the ARIA roles set once at start-up, the CSS text of
  the progress bar, the cursor style of the checkboxes.
\<close>

definition demo_world :: world where
  \<comment> \<open>a world after start-up, on slide 3 of an empty page\<close>
  "demo_world =
     \<lparr>currentSlide = 3, totalSlides = 12,
      page = \<lparr>elems = [], prev_btn = None, next_btn = None, counter_text = None,
              total_text = None, doc_title = ''''\<rparr>,
      store = \<lparr>available = True, views_item = None, items = Map.empty\<rparr>,
      timers = [], clock = 0, rnd = ''k3j9x0q2a'', slots = enhanced_slots,
      api_goto = Some (install [UpdateProgress] Base), listeners = [ClickNav, KeyNav, KeyHelp],
      progress = None, live_regions = [], next_node = 0, fullscreen = False,
      fs_request = True, fs_exit = True, dialogs = 0,
      boxes = [], messages = [], installed = True, doc_ready = False\<rparr>"

definition demo_key :: "string \<Rightarrow> bool \<Rightarrow> key_event" where
  "demo_key k c = \<lparr>key = k, ctrl_key = c, shift_key = False\<rparr>"

definition demo_slide :: "nat \<Rightarrow> elem" where
  "demo_slide k = \<lparr>is_slide = True, is_indicator = False, data_slide = Some (nat_str k), is_active = False,
     heading = None, opacity = '''', transform = ''''\<rparr>"

definition demo_indicator :: elem where
  "demo_indicator = \<lparr>is_slide = False, is_indicator = True, data_slide = None, is_active = False,
     heading = None, opacity = '''', transform = ''''\<rparr>"

definition demo_deck :: "elem list" where
  \<comment> \<open>twelve slides \<^verbatim>\<open>data-slide="1"\<close> to \<^verbatim>\<open>"12"\<close>, then twelve indicators\<close>
  "demo_deck = map demo_slide [1..<13] @ replicate 12 demo_indicator"

definition demo_box :: abox where
  "demo_box = \<lparr>box_text = box_unchecked, box_color = '''', box_completed = False, box_in_item = True,
     box_listening = True\<rparr>"

definition demo_fresh :: world where
  \<comment> \<open>the world before the script runs, on the demo deck with both buttons and counters\<close>
  "demo_fresh =
     demo_world\<lparr>currentSlide := 0, totalSlides := 0,
       page := \<lparr>elems = demo_deck, prev_btn = Some \<lparr>disabled = False, label = ''''\<rparr>,
               next_btn = Some \<lparr>disabled = False, label = ''''\<rparr>, counter_text = Some '''',
               total_text = Some '''', doc_title = ''''\<rparr>,
       slots := \<lparr>goto_slot = Base, next_slot = Base, prev_slot = Base\<rparr>, api_goto := None,
       listeners := [], installed := False, boxes := [demo_box\<lparr>box_listening := False\<rparr>]\<rparr>"

definition demo_boot :: world where
  "demo_boot = boot (load_script demo_fresh)"

section \<open>Properties across components\<close>

text \<open>C5. Ctrl+1 does not go straight to slide 11: the digit test fires first, so the handler navigates to slide 1 and then to slide 11, and the view history records both views.\<close>

theorem ctrl_one_visits_slide_one:
  assumes k: "key e = ''1''" "ctrl_key e" and t: "11 \<le> totalSlides w"
    and c: "currentSlide w \<noteq> 1" and a: "available (store w)"
  shows "\<exists>vs. map v_slide (stored_views (store (fst (handle_key_press e w)))) = vs @ [1, 11]"
proof -
  let ?xs = "map v_slide (stored_views (store w))"
  let ?w1 = "call_goto 1 w"
  have v1: "map v_slide (stored_views (store ?w1)) = keep_last max_views (?xs @ [1])"
    using t c a by (simp add: store_call_goto go_to_slide_views)
  have c1: "currentSlide ?w1 = 1" "totalSlides ?w1 = totalSlides w"
    using t c by (simp_all add: call_refines)
  have a1: "available (store ?w1)" using a by (simp add: store_call_goto)
  have "map v_slide (stored_views (store (call_goto 11 ?w1))) =
        keep_last max_views (keep_last max_views (?xs @ [1]) @ [11])"
    using t c1 a1 v1 by (simp add: store_call_goto go_to_slide_views)
  also have "\<dots> = (keep_last 48 (keep_last 49 ?xs) @ [1]) @ [11]"
    by (simp add: max_views_def keep_last_snoc_last keep_last_snoc2)
  finally show ?thesis using ctrl_one_handler [OF k t] by auto
qed

section \<open>Witnesses\<close>

lemma demo_deck_ok: "deck_ok demo_deck"
  by code_simp

lemma demo_boot_reachable: "reachable demo_boot"
  unfolding demo_boot_def
  by (rule reachable.dom_loaded)
     (simp add: fresh_def demo_fresh_def demo_world_def stored_views_def demo_deck_ok)

theorem ctrl_one_visits_slide_one_witness:
  "key (demo_key ''1'' True) = ''1'' \<and> ctrl_key (demo_key ''1'' True) \<and> 11 \<le> totalSlides demo_world \<and>
   currentSlide demo_world \<noteq> 1 \<and> available (store demo_world) \<and>
   (\<exists>vs. map v_slide (stored_views (store (fst (handle_key_press (demo_key ''1'' True) demo_world)))) = vs @ [1, 11])"
  using ctrl_one_visits_slide_one [of "demo_key ''1'' True" demo_world]
  by (simp add: demo_key_def demo_world_def)


theorem enhanced_goto_rejected_witness:
  "slots demo_world = enhanced_slots \<and>
   \<not> (1 \<le> (3::int) \<and> 3 \<le> totalSlides demo_world \<and> 3 \<noteq> currentSlide demo_world) \<and>
   call_goto 3 demo_world = announce_later (update_progress demo_world)"
  using enhanced_goto_rejected [of demo_world 3] by (simp add: demo_world_def)

theorem handle_key_press_pass_witness:
  "\<not> snd (handle_key_press (demo_key ''a'' False) demo_world) \<and>
   fst (handle_key_press (demo_key ''a'' False) demo_world) = demo_world"
proof -
  have "\<not> snd (handle_key_press (demo_key ''a'' False) demo_world)"
    by (simp add: demo_key_def handle_key_press_def key_switch_def key_digit_def key_zero_def key_ctrl_def)
  then show ?thesis using handle_key_press_pass by blast
qed

theorem handle_key_press_spec_witness:
  "\<not> (ctrl_key (demo_key ''5'' False) \<and> (key (demo_key ''5'' False) = ''1'' \<or> key (demo_key ''5'' False) = ''2'')) \<and>
   length (key (demo_key ''5'' False)) = 1 \<and>
   currentSlide (fst (handle_key_press (demo_key ''5'' False) demo_world)) =
     fold (nav_spec (totalSlides demo_world)) (spec_key_ops (demo_key ''5'' False) (totalSlides demo_world))
       (currentSlide demo_world)"
  using handle_key_press_spec [of "demo_key ''5'' False" demo_world] by (simp add: demo_key_def)

theorem base_op_nav_inv_witness:
  "nav_inv demo_world \<and> nav_inv (base_op Advance demo_world)"
  using base_op_nav_inv [of demo_world Advance] by (simp add: nav_inv_def demo_world_def)


theorem reachable_invariant_witness:
  "reachable demo_boot \<and>
     1 \<le> currentSlide demo_boot \<and> currentSlide demo_boot \<le> totalSlides demo_boot \<and> totalSlides demo_boot = 12 \<and>
     update_display (currentSlide demo_boot) (page demo_boot) = page demo_boot \<and>
     update_button_states (currentSlide demo_boot) (totalSlides demo_boot) (page demo_boot) = page demo_boot \<and>
     sorted (map fst (timers demo_boot)) \<and> length (stored_views (store demo_boot)) \<le> max_views \<and>
     progress demo_boot = Some (of_int (currentSlide demo_boot) / of_int (totalSlides demo_boot) * 100)"
  by (rule conjI [OF demo_boot_reachable reachable_invariant [OF demo_boot_reachable]])

theorem redraw_no_drift_witness:
  "reachable demo_boot \<and> on_resize demo_boot = demo_boot \<and> on_visibility False demo_boot = demo_boot"
  by (rule conjI [OF demo_boot_reachable redraw_no_drift [OF demo_boot_reachable]])

theorem reachable_buttons_witness:
  "reachable demo_boot \<and> next_btn (page demo_boot) = Some \<lparr>disabled = False, label = next_label\<rparr> \<and>
   disabled \<lparr>disabled = False, label = next_label\<rparr> = (currentSlide demo_boot = totalSlides demo_boot)"
proof -
  have n: "next_btn (page demo_boot) = Some \<lparr>disabled = False, label = next_label\<rparr>"
    by (simp add: demo_boot_def boot_def load_script_def demo_fresh_def demo_world_def new_controller_def
        Let_def init_interactive_def setup_event_listeners_def update_display_w_def update_button_states_w_def
        update_button_states_def)
  show ?thesis using reachable_buttons [OF demo_boot_reachable, of _ "\<lparr>disabled = False, label = next_label\<rparr>"]
      n demo_boot_reachable by simp
qed

theorem fallback_after_boot_witness:
  "reachable demo_boot \<and> run_task FallbackInit demo_boot = demo_boot"
  by (rule conjI [OF demo_boot_reachable fallback_after_boot [OF demo_boot_reachable]])

theorem progress_bounds_witness:
  "reachable demo_boot \<and> 8 \<le> fst (snd (snd (get_progress demo_boot))) \<and>
   fst (snd (snd (get_progress demo_boot))) \<le> 100"
  by (rule conjI [OF demo_boot_reachable progress_bounds [OF demo_boot_reachable]])

theorem reachable_one_active_witness:
  "reachable demo_boot \<and>
   map is_active (filter is_indicator (elems (page demo_boot))) =
     map (\<lambda>k. int k + 1 = currentSlide demo_boot) [0..<12]"
  using reachable_one_active [OF demo_boot_reachable] demo_boot_reachable by simp

theorem checkbox_toggle_witness:
  "0 < length (boxes (demo_world\<lparr>boxes := [demo_box]\<rparr>)) \<and>
   box_listening (boxes (demo_world\<lparr>boxes := [demo_box]\<rparr>) ! 0) \<and>
   box_text (boxes (demo_world\<lparr>boxes := [demo_box]\<rparr>) ! 0) = box_unchecked \<and>
   box_text (boxes (click_box 0 (demo_world\<lparr>boxes := [demo_box]\<rparr>)) ! 0) = box_checked"
  using checkbox_toggle [of 0 "demo_world\<lparr>boxes := [demo_box]\<rparr>"] by (simp add: demo_box_def)

theorem checkbox_restore_witness:
  "0 < length (boxes (demo_world\<lparr>boxes := [demo_box]\<rparr>)) \<and>
   box_listening (boxes (demo_world\<lparr>boxes := [demo_box]\<rparr>) ! 0) \<and>
   box_text (boxes (demo_world\<lparr>boxes := [demo_box]\<rparr>) ! 0) = box_unchecked \<and>
   available (store (demo_world\<lparr>boxes := [demo_box]\<rparr>)) \<and>
   box_text (boxes (enable_action_items
     (demo_fresh\<lparr>store := store (click_box 0 (demo_world\<lparr>boxes := [demo_box]\<rparr>))\<rparr>)) ! 0) = box_checked"
  using checkbox_restore [of 0 "demo_world\<lparr>boxes := [demo_box]\<rparr>"
      "demo_fresh\<lparr>store := store (click_box 0 (demo_world\<lparr>boxes := [demo_box]\<rparr>))\<rparr>"]
  by (simp add: demo_box_def demo_fresh_def demo_world_def)

theorem get_session_id_stable_witness:
  "available (store demo_world) \<and>
   get_session_id 5 ''abc'' (store demo_world) =
     ((''session_'' @ nat_str 5 @ ''_abc''), (store demo_world)\<lparr>items := [session_key \<mapsto> (''session_'' @ nat_str 5 @ ''_abc'')]\<rparr>) \<and>
   get_session_id 9 ''xyz'' ((store demo_world)\<lparr>items := [session_key \<mapsto> (''session_'' @ nat_str 5 @ ''_abc'')]\<rparr>) =
     ((''session_'' @ nat_str 5 @ ''_abc''), (store demo_world)\<lparr>items := [session_key \<mapsto> (''session_'' @ nat_str 5 @ ''_abc'')]\<rparr>)"
proof -
  have a: "available (store demo_world)" by (simp add: demo_world_def)
  have g: "get_session_id 5 ''abc'' (store demo_world) =
     ((''session_'' @ nat_str 5 @ ''_abc''), (store demo_world)\<lparr>items := [session_key \<mapsto> (''session_'' @ nat_str 5 @ ''_abc'')]\<rparr>)"
    by (simp add: demo_world_def get_session_id_def Let_def)
  show ?thesis using a g get_session_id_stable [OF a g] by simp
qed

theorem get_session_id_unstable_witness:
  "\<not> available (store demo_world\<lparr>available := False\<rparr>) \<and> (5::nat) \<noteq> 9 \<and>
   fst (get_session_id 5 ''abc'' (store demo_world\<lparr>available := False\<rparr>)) \<noteq>
   fst (get_session_id 9 ''abc'' (store demo_world\<lparr>available := False\<rparr>))"
  using get_session_id_unstable [of "store demo_world\<lparr>available := False\<rparr>" 5 9 "''abc''" "''abc''"] by simp

theorem track_slide_view_unavailable_witness:
  "\<not> available (store (demo_world\<lparr>store := (store demo_world)\<lparr>available := False\<rparr>\<rparr>)) \<and>
   track_slide_view 3 (demo_world\<lparr>store := (store demo_world)\<lparr>available := False\<rparr>\<rparr>) =
   demo_world\<lparr>store := (store demo_world)\<lparr>available := False\<rparr>\<rparr>"
  using track_slide_view_unavailable [of "demo_world\<lparr>store := (store demo_world)\<lparr>available := False\<rparr>\<rparr>" 3]
  by simp

theorem spec_scenario_witness:
  "totalSlides (demo_world\<lparr>currentSlide := 1\<rparr>) = 12 \<and> currentSlide (demo_world\<lparr>currentSlide := 1\<rparr>) = 1 \<and>
   currentSlide ((call_next ^^ 6) (demo_world\<lparr>currentSlide := 1\<rparr>)) = 7 \<and>
   currentSlide (call_goto 12 ((call_next ^^ 6) (demo_world\<lparr>currentSlide := 1\<rparr>))) = 12 \<and>
   go_to_slide 12 ((call_next ^^ 6) (demo_world\<lparr>currentSlide := 1\<rparr>)) =
     track_slide_view 12 (animate_slide_transition Next (update_button_states_w
       (update_display_w (((call_next ^^ 6) (demo_world\<lparr>currentSlide := 1\<rparr>))\<lparr>currentSlide := 12\<rparr>)))) \<and>
   currentSlide (call_prev (call_goto 12 ((call_next ^^ 6) (demo_world\<lparr>currentSlide := 1\<rparr>)))) = 11"
proof -
  have h: "totalSlides (demo_world\<lparr>currentSlide := 1\<rparr>) = 12" "currentSlide (demo_world\<lparr>currentSlide := 1\<rparr>) = 1"
    by (simp_all add: demo_world_def)
  show ?thesis by (rule conjI [OF h(1) conjI [OF h(2) spec_scenario [OF h]]])
qed

theorem reinit_double_wraps_witness:
  "slots demo_fresh = \<lparr>goto_slot = Base, next_slot = Base, prev_slot = Base\<rparr> \<and>
   call_goto 5 (init_enhancements (init_enhancements demo_fresh)) =
     announce_later (update_progress (announce_later (update_progress
       (go_to_slide 5 (init_enhancements (init_enhancements demo_fresh))))))"
proof -
  have h: "slots demo_fresh = \<lparr>goto_slot = Base, next_slot = Base, prev_slot = Base\<rparr>"
    by (simp add: demo_fresh_def)
  show ?thesis by (rule conjI [OF h reinit_double_wraps [OF h]])
qed


theorem installed_methods_witness:
  "slots demo_fresh = \<lparr>goto_slot = Base, next_slot = Base, prev_slot = Base\<rparr> \<and>
   call_goto 5 (init_enhancements demo_fresh) =
     announce_later (update_progress (go_to_slide 5 (init_enhancements demo_fresh))) \<and>
   call_next (init_enhancements demo_fresh) = update_progress (next_slide (init_enhancements demo_fresh)) \<and>
   call_prev (init_enhancements demo_fresh) = update_progress (previous_slide (init_enhancements demo_fresh))"
proof -
  have h: "slots demo_fresh = \<lparr>goto_slot = Base, next_slot = Base, prev_slot = Base\<rparr>"
    by (simp add: demo_fresh_def)
  show ?thesis by (rule conjI [OF h installed_methods [OF h]])
qed

theorem api_goto_unannounced_witness:
  "slots demo_fresh = \<lparr>goto_slot = Base, next_slot = Base, prev_slot = Base\<rparr> \<and>
   api_go_to_slide 5 (init_enhancements demo_fresh) = update_progress (go_to_slide 5 (init_enhancements demo_fresh)) \<and>
   call_goto 5 (init_enhancements demo_fresh) = announce_later (api_go_to_slide 5 (init_enhancements demo_fresh))"
proof -
  have h: "slots demo_fresh = \<lparr>goto_slot = Base, next_slot = Base, prev_slot = Base\<rparr>"
    by (simp add: demo_fresh_def)
  show ?thesis by (rule conjI [OF h api_goto_unannounced [OF h]])
qed

theorem announcement_lifecycle_witness:
  "timers demo_world = [] \<and> next_node demo_world \<notin> fst ` set (live_regions demo_world) \<and>
   get_current_slide_title (currentSlide demo_world) (page demo_world) \<noteq> [] \<and>
   live_regions (advance 1500 (announce_slide demo_world)) = live_regions demo_world"
proof -
  have h: "timers demo_world = []" "next_node demo_world \<notin> fst ` set (live_regions demo_world)"
    "get_current_slide_title (currentSlide demo_world) (page demo_world) \<noteq> []"
    by (simp_all add: demo_world_def get_current_slide_title_def active_slide_def)
  show ?thesis using h announcement_lifecycle [OF h] by simp
qed

theorem completion_message_lifecycle_witness:
  "timers (demo_world\<lparr>boxes := [demo_box]\<rparr>) = [] \<and>
   next_node (demo_world\<lparr>boxes := [demo_box]\<rparr>) \<notin> fst ` set (messages (demo_world\<lparr>boxes := [demo_box]\<rparr>)) \<and>
   box_in_item (boxes (demo_world\<lparr>boxes := [demo_box]\<rparr>) ! 0) \<and>
   messages (advance 2300 (show_completion_message 0 (demo_world\<lparr>boxes := [demo_box]\<rparr>))) = []"
proof -
  have h: "timers (demo_world\<lparr>boxes := [demo_box]\<rparr>) = []"
    "next_node (demo_world\<lparr>boxes := [demo_box]\<rparr>) \<notin> fst ` set (messages (demo_world\<lparr>boxes := [demo_box]\<rparr>))"
    "box_in_item (boxes (demo_world\<lparr>boxes := [demo_box]\<rparr>) ! 0)"
    by (simp_all add: demo_world_def demo_box_def)
  have m: "messages (demo_world\<lparr>boxes := [demo_box]\<rparr>) = []" by (simp add: demo_world_def)
  show ?thesis using h completion_message_lifecycle [OF h] m by simp
qed

theorem goto_announced_witness:
  "slots demo_world = enhanced_slots \<and> timers demo_world = [] \<and>
   1 \<le> (5::int) \<and> 5 \<le> totalSlides demo_world \<and> 5 \<noteq> currentSlide demo_world \<and>
   get_current_slide_title 5 (page (go_to_slide 5 demo_world)) \<noteq> [] \<and>
   live_regions (advance 100 (call_goto 5 demo_world)) =
     live_regions demo_world @ [(next_node demo_world,
       announce_text 5 (totalSlides demo_world) (get_current_slide_title 5 (page (go_to_slide 5 demo_world))))]"
proof -
  have h: "slots demo_world = enhanced_slots" "timers demo_world = []"
    "1 \<le> (5::int)" "5 \<le> totalSlides demo_world" "5 \<noteq> currentSlide demo_world"
    by (simp_all add: demo_world_def)
  have e: "elems (page (go_to_slide 5 demo_world)) = []"
    by (simp add: go_to_slide_def Let_def demo_world_def track_slide_view_def animate_slide_transition_def
        animate_start_def active_slide_def update_display_w_def update_button_states_w_def
        update_display_def update_page_title_def update_button_states_def hide_slides_def show_slide_def
        split: prod.split option.split)
  have t: "get_current_slide_title 5 (page (go_to_slide 5 demo_world)) \<noteq> []"
    by (simp add: get_current_slide_title_def active_slide_def e)
  show ?thesis using h t goto_announced [OF h t] by simp
qed

end
